theory Spec2Isabelle
  imports Complex_Main "HOL-Library.AList"
begin

section \<open>Python values, error kinds and the two packages\<close>

text \<open>
  The repository holds the module \<^verbatim>\<open>timer.py\<close> twice: in the package
  \<^verbatim>\<open>smarttimers\<close> and in the package \<^verbatim>\<open>smarttimer\<close>. Where the two differ, a
  function of the model exists once per package (suffix \<open>_smarttimers\<close> or
  \<open>_smarttimer\<close>) and a dispatcher chooses by the package.
\<close>

datatype package = Smarttimers | Smarttimer

text \<open>
  The exceptions the code raises, by kind. In \<^verbatim>\<open>smarttimers\<close> the kinds are Python's
  \<^verbatim>\<open>TypeError\<close>, \<^verbatim>\<open>ValueError\<close>, \<^verbatim>\<open>KeyError\<close> and \<^verbatim>\<open>TimerCompatibilityError\<close>; in
  \<^verbatim>\<open>smarttimer\<close> they are \<^verbatim>\<open>TimerTypeError\<close>, \<^verbatim>\<open>TimerValueError\<close>,
  \<^verbatim>\<open>TimerKeyError\<close> and \<^verbatim>\<open>TimerCompatibilityError\<close>. \<open>StateError\<close> is the tests'
  \<^verbatim>\<open>TimerError\<close>, \<open>OverflowError\<close> Python's own, raised by \<^verbatim>\<open>float\<close>.
\<close>

datatype error =
  TypeError | ValueError | KeyError | CompatibilityError | StateError | OverflowError

text \<open>
  A Python float: a finite value, an infinity or NaN. A finite float stands for the
  real number it denotes; the rounding of results within the range of the floats is
  not modelled, the range is.
\<close>

datatype pyfloat = Fin real | PosInf | NegInf | NaN

text \<open>
  The range: a real number of this magnitude or more does not round to a finite
  float. An operation on floats gives an infinity there, and \<^verbatim>\<open>float(i)\<close> of an int
  raises \<^verbatim>\<open>OverflowError\<close>.
\<close>

definition float_limit :: real where
  "float_limit = 2 ^ 1024 - 2 ^ 970"

definition to_range :: "real \<Rightarrow> pyfloat" where
  "to_range x =
     (if float_limit \<le> x then PosInf
      else if x \<le> - float_limit then NegInf
      else Fin x)"

text \<open>The operations on floats that the code uses: \<^verbatim>\<open>+\<close>, \<^verbatim>\<open>-\<close>, \<^verbatim>\<open>abs\<close>, \<^verbatim>\<open>/ 60.\<close>.\<close>

fun fadd :: "pyfloat \<Rightarrow> pyfloat \<Rightarrow> pyfloat" where
  "fadd NaN y = NaN"
| "fadd x NaN = NaN"
| "fadd PosInf NegInf = NaN"
| "fadd NegInf PosInf = NaN"
| "fadd PosInf y = PosInf"
| "fadd x PosInf = PosInf"
| "fadd NegInf y = NegInf"
| "fadd x NegInf = NegInf"
| "fadd (Fin x) (Fin y) = to_range (x + y)"

fun fneg :: "pyfloat \<Rightarrow> pyfloat" where
  "fneg (Fin x) = Fin (- x)"
| "fneg PosInf = NegInf"
| "fneg NegInf = PosInf"
| "fneg NaN = NaN"

definition fsub :: "pyfloat \<Rightarrow> pyfloat \<Rightarrow> pyfloat" where
  "fsub x y = fadd x (fneg y)"

fun fabs :: "pyfloat \<Rightarrow> pyfloat" where
  "fabs (Fin x) = Fin \<bar>x\<bar>"
| "fabs PosInf = PosInf"
| "fabs NegInf = PosInf"
| "fabs NaN = NaN"

fun fdiv60 :: "pyfloat \<Rightarrow> pyfloat" where
  "fdiv60 (Fin x) = Fin (x / 60)"
| "fdiv60 PosInf = PosInf"
| "fdiv60 NegInf = NegInf"
| "fdiv60 NaN = NaN"

text \<open>
  The comparisons \<^verbatim>\<open><\<close>, \<^verbatim>\<open>==\<close> and \<^verbatim>\<open><=\<close> of floats: every comparison with NaN is
  false.
\<close>

fun flt :: "pyfloat \<Rightarrow> pyfloat \<Rightarrow> bool" where
  "flt NaN y = False"
| "flt x NaN = False"
| "flt x NegInf = False"
| "flt PosInf y = False"
| "flt NegInf y = True"
| "flt x PosInf = True"
| "flt (Fin x) (Fin y) = (x < y)"

definition feq :: "pyfloat \<Rightarrow> pyfloat \<Rightarrow> bool" where
  "feq x y = (x \<noteq> NaN \<and> x = y)"

definition fle :: "pyfloat \<Rightarrow> pyfloat \<Rightarrow> bool" where
  "fle x y = (flt x y \<or> feq x y)"

text \<open>
  A dynamically typed argument. \<open>PFunc n\<close> is a callable object and \<open>PObj n\<close> any
  other object (a list, a dict, ...), each with its identity \<open>n\<close>.
\<close>

datatype pyval = PNone | PInt int | PFloat pyfloat | PStr string | PFunc nat | PObj nat

fun callable :: "pyval \<Rightarrow> bool" where
  "callable (PFunc n) = True"
| "callable v = False"

fun is_str :: "pyval \<Rightarrow> bool" where
  "is_str (PStr s) = True"
| "is_str v = False"

text \<open>\<^verbatim>\<open>isinstance(v, (int, float))\<close>.\<close>

fun is_number :: "pyval \<Rightarrow> bool" where
  "is_number (PInt i) = True"
| "is_number (PFloat x) = True"
| "is_number v = False"

text \<open>
  \<^verbatim>\<open>v < 0.\<close> for a number: Python compares an int with a float by value, without
  converting it.
\<close>

fun negative :: "pyval \<Rightarrow> bool" where
  "negative (PInt i) = (i < 0)"
| "negative (PFloat x) = flt x (Fin 0)"
| "negative v = False"

text \<open>
  \<^verbatim>\<open>float(v)\<close>: an int out of the range of the floats raises \<^verbatim>\<open>OverflowError\<close>. For a
  value that is not a number the call raises (\<^verbatim>\<open>TypeError\<close>; \<^verbatim>\<open>ValueError\<close> for a string
  that does not read as a number: one kind stands for both).
\<close>

fun py_float :: "pyval \<Rightarrow> error + pyfloat" where
  "py_float (PInt i) =
     (if float_limit \<le> \<bar>real_of_int i\<bar> then Inl OverflowError else Inr (Fin (real_of_int i)))"
| "py_float (PFloat x) = Inr x"
| "py_float v = Inl TypeError"

section \<open>TimerDict: the registry of clocks\<close>

text \<open>
  A Python dict keeps its keys in insertion order: an association list with distinct
  keys, \<open>AList.update\<close> for item assignment of the underlying dict and \<open>map_of\<close> for
  its lookup.
\<close>

type_synonym TimerDict = "(pyval \<times> pyval) list"

text \<open>
  \<^verbatim>\<open>TimerDict.__setitem__\<close> of \<^verbatim>\<open>smarttimers\<close>. A mutation of the registry returns the
  exception raised, if any, and the dict as the call leaves it.
\<close>

definition setitem_smarttimers :: "TimerDict \<Rightarrow> pyval \<Rightarrow> pyval \<Rightarrow> error option \<times> TimerDict" where
  "setitem_smarttimers d key v =
     (if \<not> is_str key then (Some KeyError, d)
      else if key = PStr [] then (Some KeyError, d)
      else if \<not> callable v then (Some ValueError, d)
      else (None, AList.update key v d))"

text \<open>\<^verbatim>\<open>TimerDict.__setitem__\<close> of \<^verbatim>\<open>smarttimer\<close>: no check of the empty key.\<close>

definition setitem_smarttimer :: "TimerDict \<Rightarrow> pyval \<Rightarrow> pyval \<Rightarrow> error option \<times> TimerDict" where
  "setitem_smarttimer d key v =
     (if \<not> is_str key then (Some KeyError, d)
      else if \<not> callable v then (Some ValueError, d)
      else (None, AList.update key v d))"

definition setitem :: "package \<Rightarrow> TimerDict \<Rightarrow> pyval \<Rightarrow> pyval \<Rightarrow> error option \<times> TimerDict" where
  "setitem pkg d key v =
     (case pkg of Smarttimers \<Rightarrow> setitem_smarttimers d key v
                | Smarttimer \<Rightarrow> setitem_smarttimer d key v)"

text \<open>
  The argument of \<^verbatim>\<open>update\<close>: a dict, given by its items in order, or a value that is
  not a dict.
\<close>

datatype dict_arg = ADict "(pyval \<times> pyval) list" | ANotDict pyval

text \<open>
  The loop of \<^verbatim>\<open>TimerDict.update\<close> of \<^verbatim>\<open>smarttimers\<close>,
  \<^verbatim>\<open>for k, v in tdict.items(): self[k] = v\<close>: it stops at the first item refused, with
  the items before it stored.
\<close>

fun update_items :: "TimerDict \<Rightarrow> (pyval \<times> pyval) list \<Rightarrow> error option \<times> TimerDict" where
  "update_items d [] = (None, d)"
| "update_items d ((k, v) # kvs) =
     (case setitem_smarttimers d k v of
        (Some e, d') \<Rightarrow> (Some e, d')
      | (None, d') \<Rightarrow> update_items d' kvs)"

definition update_smarttimers :: "TimerDict \<Rightarrow> dict_arg \<Rightarrow> error option \<times> TimerDict" where
  "update_smarttimers d tdict =
     (case tdict of ANotDict v \<Rightarrow> (Some TypeError, d)
                  | ADict kvs \<Rightarrow> update_items d kvs)"

text \<open>
  \<^verbatim>\<open>TimerDict.update\<close> of \<^verbatim>\<open>smarttimer\<close> calls \<^verbatim>\<open>super().update(value)\<close>: the items are
  stored by the dict itself, without \<^verbatim>\<open>__setitem__\<close>.
\<close>

definition update_smarttimer :: "TimerDict \<Rightarrow> dict_arg \<Rightarrow> error option \<times> TimerDict" where
  "update_smarttimer d v =
     (case v of ANotDict x \<Rightarrow> (Some TypeError, d)
              | ADict kvs \<Rightarrow> (None, foldl (\<lambda>m (k, x). AList.update k x m) d kvs))"

text \<open>
  Reading \<^verbatim>\<open>CLOCKS[key]\<close>: the dict's own lookup in \<^verbatim>\<open>smarttimers\<close>, and
  \<^verbatim>\<open>TimerDict.__getitem__\<close> in \<^verbatim>\<open>smarttimer\<close>; a missing key is a \<open>KeyError\<close> in both
  (the dict's own lookup of a key that cannot be hashed raises \<^verbatim>\<open>TypeError\<close> instead; the
  code looks up strings).
\<close>

definition getitem_smarttimers :: "TimerDict \<Rightarrow> pyval \<Rightarrow> error + pyval" where
  "getitem_smarttimers d key =
     (case map_of d key of None \<Rightarrow> Inl KeyError | Some v \<Rightarrow> Inr v)"

definition getitem_smarttimer :: "TimerDict \<Rightarrow> pyval \<Rightarrow> error + pyval" where
  "getitem_smarttimer d key =
     (if \<not> is_str key then Inl KeyError
      else if key \<notin> set (map fst d) then Inl KeyError
      else (case map_of d key of None \<Rightarrow> Inl KeyError | Some v \<Rightarrow> Inr v))"

definition getitem :: "package \<Rightarrow> TimerDict \<Rightarrow> pyval \<Rightarrow> error + pyval" where
  "getitem pkg d key =
     (case pkg of Smarttimers \<Rightarrow> getitem_smarttimers d key
                | Smarttimer \<Rightarrow> getitem_smarttimer d key)"

text \<open>\<^verbatim>\<open>Timer.register_clock\<close> and \<^verbatim>\<open>Timer.unregister_clock\<close>, on the class's \<^verbatim>\<open>CLOCKS\<close>.\<close>

definition register_clock :: "package \<Rightarrow> TimerDict \<Rightarrow> pyval \<Rightarrow> pyval \<Rightarrow> error option \<times> TimerDict" where
  "register_clock pkg d clock_name clock_func = setitem pkg d clock_name clock_func"

definition unregister_clock :: "package \<Rightarrow> TimerDict \<Rightarrow> pyval \<Rightarrow> error option \<times> TimerDict" where
  "unregister_clock pkg d clock_name =
     (case getitem pkg d clock_name of
        Inl e \<Rightarrow> (Some e, d)
      | Inr v \<Rightarrow> (None, AList.delete clock_name d))"

text \<open>The registry's invariant: every key a non-empty string, every value callable.\<close>

definition valid_entry :: "pyval \<times> pyval \<Rightarrow> bool" where
  "valid_entry kv = (is_str (fst kv) \<and> fst kv \<noteq> PStr [] \<and> callable (snd kv))"

definition registry_inv :: "TimerDict \<Rightarrow> bool" where
  "registry_inv d = list_all valid_entry d"

text \<open>The invariant \<^verbatim>\<open>__setitem__\<close> of \<^verbatim>\<open>smarttimer\<close> keeps: the key may be empty.\<close>

definition weak_entry :: "pyval \<times> pyval \<Rightarrow> bool" where
  "weak_entry kv = (is_str (fst kv) \<and> callable (snd kv))"

definition weak_registry_inv :: "TimerDict \<Rightarrow> bool" where
  "weak_registry_inv d = list_all weak_entry d"

section \<open>Timer\<close>

text \<open>
  What \<^verbatim>\<open>time.get_clock_info(name)\<close> returns: a namespace of four attributes,
  compared attribute by attribute. The function belongs to the platform; it raises
  for a name it does not know (\<open>None\<close> in the model).
\<close>

record clock_info =
  adjustable :: bool
  implementation :: string
  monotonic :: bool
  resolution :: real

text \<open>
  The class attributes of \<^verbatim>\<open>Timer\<close> (\<^verbatim>\<open>CLOCKS\<close>, \<^verbatim>\<open>DEFAULT_CLOCK_NAME\<close>) and the
  platform's \<^verbatim>\<open>time.get_clock_info\<close>.
\<close>

record env =
  CLOCKS :: TimerDict
  DEFAULT_CLOCK_NAME :: string
  get_clock_info :: "string \<Rightarrow> clock_info option"

text \<open>
  An instance: \<^verbatim>\<open>_label\<close> (\<^verbatim>\<open>_id\<close> in \<^verbatim>\<open>smarttimer\<close>), \<^verbatim>\<open>_seconds\<close>, \<^verbatim>\<open>_minutes\<close>,
  \<^verbatim>\<open>_clock_name\<close> and \<^verbatim>\<open>_clock\<close>.
\<close>

record Timer =
  label :: string
  seconds :: pyfloat
  minutes :: pyfloat
  clock_name :: string
  clock :: pyval

text \<open>The second operand of an operator: a \<^verbatim>\<open>Timer\<close> or any other value.\<close>

datatype operand = OTimer Timer | OValue pyval

text \<open>
  \<^verbatim>\<open>Timer._set_time\<close> of \<^verbatim>\<open>smarttimers\<close>: the type and the sign are checked here; NaN
  passes \<^verbatim>\<open>seconds < 0.\<close>. Then \<^verbatim>\<open>float(seconds)\<close> is stored, and \<^verbatim>\<open>seconds / 60.\<close>,
  which is the quotient of the same float.
\<close>

definition set_time_smarttimers :: "pyval \<Rightarrow> Timer \<Rightarrow> error + Timer" where
  "set_time_smarttimers secs self =
     (if \<not> is_number secs then Inl TypeError
      else if negative secs then Inl ValueError
      else
        (case py_float secs of
           Inl e \<Rightarrow> Inl e
         | Inr x \<Rightarrow> Inr (self\<lparr>seconds := x, minutes := fdiv60 x\<rparr>)))"

text \<open>
  \<^verbatim>\<open>Timer._set_time\<close> of \<^verbatim>\<open>smarttimer\<close>: no check; \<^verbatim>\<open>float(seconds)\<close> raises for a value
  that is not a number and for an int out of range.
\<close>

definition set_time_smarttimer :: "pyval \<Rightarrow> Timer \<Rightarrow> error + Timer" where
  "set_time_smarttimer secs self =
     (case py_float secs of
        Inl e \<Rightarrow> Inl e
      | Inr x \<Rightarrow> Inr (self\<lparr>seconds := x, minutes := fdiv60 x\<rparr>))"

definition set_time :: "package \<Rightarrow> pyval \<Rightarrow> Timer \<Rightarrow> error + Timer" where
  "set_time pkg secs self =
     (case pkg of Smarttimers \<Rightarrow> set_time_smarttimers secs self
                | Smarttimer \<Rightarrow> set_time_smarttimer secs self)"

text \<open>The setter of \<^verbatim>\<open>label\<close> (\<^verbatim>\<open>id\<close> in \<^verbatim>\<open>smarttimer\<close>).\<close>

definition label_setter :: "pyval \<Rightarrow> Timer \<Rightarrow> error + Timer" where
  "label_setter v self =
     (case v of PStr s \<Rightarrow> Inr (self\<lparr>label := s\<rparr>) | _ \<Rightarrow> Inl TypeError)"

text \<open>\<^verbatim>\<open>Timer.clear\<close>: \<^verbatim>\<open>self._set_time(0.)\<close>.\<close>

definition clear :: "package \<Rightarrow> Timer \<Rightarrow> error + Timer" where
  "clear pkg self = set_time pkg (PFloat (Fin 0)) self"

text \<open>
  \<^verbatim>\<open>Timer.is_compatible\<close>: \<open>False\<close> for a value that is not a \<^verbatim>\<open>Timer\<close>; else the two
  clock infos are compared, and when \<^verbatim>\<open>time.get_clock_info\<close> raises for either name,
  the two registered functions are compared by identity. The registry lookups raise
  \<open>KeyError\<close> for a name that is not registered.
\<close>

definition is_compatible :: "package \<Rightarrow> env \<Rightarrow> Timer \<Rightarrow> operand \<Rightarrow> error + bool" where
  "is_compatible pkg env self other =
     (case other of
        OValue v \<Rightarrow> Inr False
      | OTimer timer \<Rightarrow>
          (case (get_clock_info env (clock_name self), get_clock_info env (clock_name timer)) of
             (Some i1, Some i2) \<Rightarrow> Inr (i1 = i2)
           | _ \<Rightarrow>
               (case getitem pkg (CLOCKS env) (PStr (clock_name self)) of
                  Inl e \<Rightarrow> Inl e
                | Inr f \<Rightarrow>
                    (case getitem pkg (CLOCKS env) (PStr (clock_name timer)) of
                       Inl e \<Rightarrow> Inl e
                     | Inr g \<Rightarrow> Inr (f = g)))))"

text \<open>
  The setter of \<^verbatim>\<open>clock_name\<close>. \<open>has_attr\<close> is \<^verbatim>\<open>hasattr(self, '_clock_name')\<close>: false
  in \<^verbatim>\<open>__init__\<close>, true for every later assignment. The setter passes the new name,
  a string, to \<^verbatim>\<open>is_compatible\<close>.
\<close>

definition clock_name_setter ::
  "package \<Rightarrow> env \<Rightarrow> bool \<Rightarrow> pyval \<Rightarrow> Timer \<Rightarrow> error + Timer" where
  "clock_name_setter pkg env has_attr new_name self =
     (case new_name of
        PStr n \<Rightarrow>
          (case (if has_attr then is_compatible pkg env self (OValue new_name) else Inr True) of
             Inl e \<Rightarrow> Inl e
           | Inr compatible \<Rightarrow>
               (case (if \<not> compatible then clear pkg self else Inr self) of
                  Inl e \<Rightarrow> Inl e
                | Inr self1 \<Rightarrow>
                    (let n' = (if n \<noteq> [] then n else DEFAULT_CLOCK_NAME env) in
                     case getitem pkg (CLOCKS env) (PStr n') of
                       Inl e \<Rightarrow> Inl e
                     | Inr f \<Rightarrow> Inr (self1\<lparr>clock_name := n', clock := f\<rparr>))))
      | _ \<Rightarrow> Inl TypeError)"

text \<open>
  The keyword arguments of \<^verbatim>\<open>Timer(label, **kwargs)\<close>; \<^verbatim>\<open>timer\<close> is a \<^verbatim>\<open>Timer\<close> or is
  not given.
\<close>

record kwargs =
  kw_seconds :: "pyval option"
  kw_clock_name :: "pyval option"
  kw_timer :: "Timer option"

text \<open>The new object before \<^verbatim>\<open>__init__\<close> has set its attributes.\<close>

definition new_object :: Timer where
  "new_object =
     \<lparr>label = [], seconds = Fin 0, minutes = Fin 0, clock_name = [], clock = PNone\<rparr>"

text \<open>\<^verbatim>\<open>Timer.__init__\<close> of \<^verbatim>\<open>smarttimers\<close>.\<close>

definition init_smarttimers :: "env \<Rightarrow> pyval \<Rightarrow> kwargs \<Rightarrow> error + Timer" where
  "init_smarttimers env lbl kw =
     (case label_setter lbl new_object of
        Inl e \<Rightarrow> Inl e
      | Inr self \<Rightarrow>
          (case kw_timer kw of
             Some timer \<Rightarrow>
               (case set_time_smarttimers (PFloat (seconds timer)) self of
                  Inl e \<Rightarrow> Inl e
                | Inr self1 \<Rightarrow>
                    clock_name_setter Smarttimers env False (PStr (clock_name timer)) self1)
           | None \<Rightarrow>
               (case set_time_smarttimers
                       (case kw_seconds kw of None \<Rightarrow> PFloat (Fin 0) | Some v \<Rightarrow> v) self of
                  Inl e \<Rightarrow> Inl e
                | Inr self1 \<Rightarrow>
                    clock_name_setter Smarttimers env False
                      (case kw_clock_name kw of
                         None \<Rightarrow> PStr (DEFAULT_CLOCK_NAME env) | Some v \<Rightarrow> v)
                      self1)))"

text \<open>\<^verbatim>\<open>Timer.__init__\<close> of \<^verbatim>\<open>smarttimer\<close>: the checks of \<^verbatim>\<open>seconds\<close> are made here.\<close>

definition init_smarttimer :: "env \<Rightarrow> pyval \<Rightarrow> kwargs \<Rightarrow> error + Timer" where
  "init_smarttimer env lbl kw =
     (case label_setter lbl new_object of
        Inl e \<Rightarrow> Inl e
      | Inr self \<Rightarrow>
          (case kw_timer kw of
             Some other \<Rightarrow>
               (case set_time_smarttimer (PFloat (seconds other)) self of
                  Inl e \<Rightarrow> Inl e
                | Inr self1 \<Rightarrow>
                    clock_name_setter Smarttimer env False (PStr (clock_name other)) self1)
           | None \<Rightarrow>
               (let secs = (case kw_seconds kw of None \<Rightarrow> PFloat (Fin 0) | Some v \<Rightarrow> v) in
                if \<not> is_number secs then Inl TypeError
                else if negative secs then Inl ValueError
                else
                  (case set_time_smarttimer secs self of
                     Inl e \<Rightarrow> Inl e
                   | Inr self1 \<Rightarrow>
                       clock_name_setter Smarttimer env False
                         (case kw_clock_name kw of
                            None \<Rightarrow> PStr (DEFAULT_CLOCK_NAME env) | Some v \<Rightarrow> v)
                         self1))))"

definition Timer_init :: "package \<Rightarrow> env \<Rightarrow> pyval \<Rightarrow> kwargs \<Rightarrow> error + Timer" where
  "Timer_init pkg env lbl kw =
     (case pkg of Smarttimers \<Rightarrow> init_smarttimers env lbl kw
                | Smarttimer \<Rightarrow> init_smarttimer env lbl kw)"

text \<open>
  \<^verbatim>\<open>Timer.time\<close>: the bound function is called and its result recorded. \<open>reading f\<close>
  is what the function of identity \<open>f\<close> returns at this call.
\<close>

definition time ::
  "package \<Rightarrow> (nat \<Rightarrow> pyval) \<Rightarrow> Timer \<Rightarrow> error + (Timer \<times> pyfloat)" where
  "time pkg reading self =
     (case clock self of
        PFunc f \<Rightarrow>
          (case set_time pkg (reading f) self of
             Inl e \<Rightarrow> Inl e
           | Inr self1 \<Rightarrow> Inr (self1, seconds self1))
      | _ \<Rightarrow> Inl TypeError)"

text \<open>\<^verbatim>\<open>Timer.reset\<close>.\<close>

definition reset :: "package \<Rightarrow> env \<Rightarrow> Timer \<Rightarrow> error + Timer" where
  "reset pkg env self =
     (case label_setter (PStr []) self of
        Inl e \<Rightarrow> Inl e
      | Inr self1 \<Rightarrow>
          (case clock_name_setter pkg env True (PStr (DEFAULT_CLOCK_NAME env)) self1 of
             Inl e \<Rightarrow> Inl e
           | Inr self2 \<Rightarrow> clear pkg self2))"

text \<open>Python's \<^verbatim>\<open>sep.join(xs)\<close>, and \<^verbatim>\<open>filter(None, xs)\<close> on strings.\<close>

fun join :: "string \<Rightarrow> string list \<Rightarrow> string" where
  "join sep [] = []"
| "join sep [x] = x"
| "join sep (x # y # ys) = x @ sep @ join sep (y # ys)"

definition filter_None :: "string list \<Rightarrow> string list" where
  "filter_None xs = filter (\<lambda>s. s \<noteq> []) xs"

text \<open>
  \<^verbatim>\<open>Timer.__add__\<close> and \<^verbatim>\<open>Timer.__sub__\<close>. After \<^verbatim>\<open>is_compatible\<close> has answered true
  the operand is a \<^verbatim>\<open>Timer\<close>, so the last branch is never taken.
\<close>

definition add :: "package \<Rightarrow> env \<Rightarrow> Timer \<Rightarrow> operand \<Rightarrow> error + Timer" where
  "add pkg env self other =
     (case is_compatible pkg env self other of
        Inl e \<Rightarrow> Inl e
      | Inr compatible \<Rightarrow>
          if \<not> compatible then Inl CompatibilityError
          else
            (case other of
               OTimer timer \<Rightarrow>
                 Timer_init pkg env
                   (PStr (join ''+'' (filter_None [label self, label timer])))
                   \<lparr>kw_seconds = Some (PFloat (fadd (seconds self) (seconds timer))),
                    kw_clock_name = Some (PStr (clock_name self)),
                    kw_timer = None\<rparr>
             | OValue v \<Rightarrow> Inl CompatibilityError))"

definition sub :: "package \<Rightarrow> env \<Rightarrow> Timer \<Rightarrow> operand \<Rightarrow> error + Timer" where
  "sub pkg env self other =
     (case is_compatible pkg env self other of
        Inl e \<Rightarrow> Inl e
      | Inr compatible \<Rightarrow>
          if \<not> compatible then Inl CompatibilityError
          else
            (case other of
               OTimer timer \<Rightarrow>
                 Timer_init pkg env
                   (PStr (join ''-'' (filter_None [label self, label timer])))
                   \<lparr>kw_seconds = Some (PFloat (fabs (fsub (seconds self) (seconds timer)))),
                    kw_clock_name = Some (PStr (clock_name self)),
                    kw_timer = None\<rparr>
             | OValue v \<Rightarrow> Inl CompatibilityError))"

text \<open>
  \<^verbatim>\<open>Timer.__eq__\<close>: \<^verbatim>\<open>smarttimers\<close> answers \<open>False\<close> for an incompatible operand,
  \<^verbatim>\<open>smarttimer\<close> raises.
\<close>

definition eq_smarttimers :: "env \<Rightarrow> Timer \<Rightarrow> operand \<Rightarrow> error + bool" where
  "eq_smarttimers env self other =
     (case is_compatible Smarttimers env self other of
        Inl e \<Rightarrow> Inl e
      | Inr compatible \<Rightarrow>
          if \<not> compatible then Inr False
          else
            (case other of
               OTimer timer \<Rightarrow> Inr (feq (seconds self) (seconds timer))
             | OValue v \<Rightarrow> Inr False))"

definition eq_smarttimer :: "env \<Rightarrow> Timer \<Rightarrow> operand \<Rightarrow> error + bool" where
  "eq_smarttimer env self other =
     (case is_compatible Smarttimer env self other of
        Inl e \<Rightarrow> Inl e
      | Inr compatible \<Rightarrow>
          if \<not> compatible then Inl CompatibilityError
          else
            (case other of
               OTimer timer \<Rightarrow> Inr (feq (seconds self) (seconds timer))
             | OValue v \<Rightarrow> Inl CompatibilityError))"

definition eq :: "package \<Rightarrow> env \<Rightarrow> Timer \<Rightarrow> operand \<Rightarrow> error + bool" where
  "eq pkg env self other =
     (case pkg of Smarttimers \<Rightarrow> eq_smarttimers env self other
                | Smarttimer \<Rightarrow> eq_smarttimer env self other)"

text \<open>\<^verbatim>\<open>Timer.__lt__\<close>, and the operators derived from it and \<^verbatim>\<open>__eq__\<close>.\<close>

definition lt :: "package \<Rightarrow> env \<Rightarrow> Timer \<Rightarrow> operand \<Rightarrow> error + bool" where
  "lt pkg env self other =
     (case is_compatible pkg env self other of
        Inl e \<Rightarrow> Inl e
      | Inr compatible \<Rightarrow>
          if \<not> compatible then Inl CompatibilityError
          else
            (case other of
               OTimer timer \<Rightarrow> Inr (flt (seconds self) (seconds timer))
             | OValue v \<Rightarrow> Inl CompatibilityError))"

text \<open>\<^verbatim>\<open>self < timer or self == timer\<close>: the equality is evaluated only after a false.\<close>

definition le :: "package \<Rightarrow> env \<Rightarrow> Timer \<Rightarrow> operand \<Rightarrow> error + bool" where
  "le pkg env self other =
     (case lt pkg env self other of
        Inl e \<Rightarrow> Inl e
      | Inr b \<Rightarrow> if b then Inr True else eq pkg env self other)"

definition gt :: "package \<Rightarrow> env \<Rightarrow> Timer \<Rightarrow> operand \<Rightarrow> error + bool" where
  "gt pkg env self other =
     (case le pkg env self other of Inl e \<Rightarrow> Inl e | Inr b \<Rightarrow> Inr (\<not> b))"

definition ge :: "package \<Rightarrow> env \<Rightarrow> Timer \<Rightarrow> operand \<Rightarrow> error + bool" where
  "ge pkg env self other =
     (case lt pkg env self other of Inl e \<Rightarrow> Inl e | Inr b \<Rightarrow> Inr (\<not> b))"

subsection \<open>The class as the source sets it up, and an example platform\<close>

text \<open>The class attribute \<^verbatim>\<open>_CLOCKS\<close>; the five functions of \<^verbatim>\<open>time\<close> get identities 0 to 4.\<close>

definition initial_CLOCKS :: TimerDict where
  "initial_CLOCKS =
     [(PStr ''perf_counter'', PFunc 0), (PStr ''process_time'', PFunc 1),
      (PStr ''clock'', PFunc 2), (PStr ''monotonic'', PFunc 3), (PStr ''time'', PFunc 4)]"

text \<open>
  A platform for the examples: \<^verbatim>\<open>time.get_clock_info\<close> knows \<^verbatim>\<open>monotonic\<close> and
  \<^verbatim>\<open>time\<close> and raises for every other name.
\<close>

definition example_clock_info :: "string \<Rightarrow> clock_info option" where
  "example_clock_info n =
     (if n = ''monotonic'' then
        Some \<lparr>adjustable = False, implementation = ''clock_gettime(CLOCK_MONOTONIC)'',
              monotonic = True, resolution = 1 / 1000000000\<rparr>
      else if n = ''time'' then
        Some \<lparr>adjustable = True, implementation = ''clock_gettime(CLOCK_REALTIME)'',
              monotonic = False, resolution = 1 / 1000000000\<rparr>
      else None)"

definition initial_env :: env where
  "initial_env =
     \<lparr>CLOCKS = initial_CLOCKS, DEFAULT_CLOCK_NAME = ''perf_counter'',
      get_clock_info = example_clock_info\<rparr>"

section \<open>SmartTimer: the tracker\<close>

text \<open>
  The class \<^verbatim>\<open>SmartTimer\<close> is not among the source files; its tests
  (\<^verbatim>\<open>tests/test_SmartTimerInstanceMethods.py\<close>) are. The definitions of this section
  are modelled from the spec (sections 3, 4.2, 4.3 and 8). Where the spec's sentences
  on the tracker contradict one another (4.2 has a close fail on an empty stack and has
  the cascading close succeed on one) or say nothing, the model follows the assertions
  of the tests:
  \<^item> \<^verbatim>\<open>test_ActiveCompletedTimes\<close>: a label is listed from its open on;
  \<^item> \<^verbatim>\<open>test_NestedScheme\<close>: \<^verbatim>\<open>walltime() == seconds[0]\<close>, which section 8 has as the
    seconds of the outer record, so records stand in the order of their opens;
  \<^item> \<^verbatim>\<open>test_CascadeScheme\<close>, \<^verbatim>\<open>test_TimerStatsSelect\<close>: after \<^verbatim>\<open>tic('A'); toc()\<close> both
    \<^verbatim>\<open>toc('B')\<close> and \<^verbatim>\<open>toc()\<close> succeed;
  \<^item> \<^verbatim>\<open>test_NoMatchedPair\<close>, \<^verbatim>\<open>test_InvalidTocKey\<close>: the errors of \<^verbatim>\<open>toc\<close>;
  \<^item> \<^verbatim>\<open>test_Clear\<close>, \<^verbatim>\<open>test_Reset\<close>: \<^verbatim>\<open>clear\<close> keeps the name, \<^verbatim>\<open>reset\<close> restores
    \<^verbatim>\<open>'smarttimer'\<close>.
  \<^verbatim>\<open>walltime()\<close> is not modelled: section 4.3 has it as the sum of all records, section 8
  and the tests as the seconds of one record of two.
\<close>

text \<open>Modelled from the spec: IntervalRecord (section 3), one completed measurement.\<close>

record IntervalRecord =
  rec_label :: string
  rec_seconds :: real
  rec_minutes :: real

text \<open>
  Modelled from the spec: an interval of the tracker, from its open on: pending with
  its label and the clock reading of its open, or closed with its record.
\<close>

datatype slot = Pending string real | Closed IntervalRecord

text \<open>
  Modelled from the spec: IntervalTracker (section 3): the name, the bound clock name
  and the intervals in the order of their opens. The pending-open stack is the
  pending intervals, the last one on top; the closed-record sequence is the closed
  ones. The label of the latest open and the reading of the latest close are kept for
  the cascading close.
\<close>

record SmartTimer =
  name :: string
  tracker_clock_name :: string
  slots :: "slot list"
  last_open :: "string option"
  last_close :: "real option"

text \<open>Modelled from the spec: the pending-open stack, bottom first.\<close>

fun pending_of :: "slot list \<Rightarrow> (string \<times> real) list" where
  "pending_of [] = []"
| "pending_of (Pending l t # xs) = (l, t) # pending_of xs"
| "pending_of (Closed r # xs) = pending_of xs"

text \<open>Modelled from the spec: the pending-open stack of a tracker.\<close>

definition pending :: "SmartTimer \<Rightarrow> (string \<times> real) list" where
  "pending s = pending_of (slots s)"

text \<open>Modelled from the spec: the closed-record sequence.\<close>

fun closed_of :: "slot list \<Rightarrow> IntervalRecord list" where
  "closed_of [] = []"
| "closed_of (Pending l t # xs) = closed_of xs"
| "closed_of (Closed r # xs) = r # closed_of xs"

text \<open>Modelled from the spec: the closed-record sequence of a tracker.\<close>

definition closed_records :: "SmartTimer \<Rightarrow> IntervalRecord list" where
  "closed_records s = closed_of (slots s)"

text \<open>
  Modelled from the spec: the tracker's default name (\<^verbatim>\<open>test_InitDefaultArgs\<close>).
\<close>

definition DEFAULT_NAME :: string where
  "DEFAULT_NAME = ''smarttimer''"

text \<open>Modelled from the spec: a tracker as created, with its name and clock name: empty.\<close>

definition new_tracker :: "string \<Rightarrow> string \<Rightarrow> SmartTimer" where
  "new_tracker n c =
     \<lparr>name = n, tracker_clock_name = c, slots = [], last_open = None,
      last_close = None\<rparr>"

text \<open>
  Modelled from the spec: the record of an interval opened at reading \<open>start\<close> and
  closed at reading \<open>now\<close> (4.2, timing semantics: close reading minus start reading).
\<close>

definition interval :: "string \<Rightarrow> real \<Rightarrow> real \<Rightarrow> IntervalRecord" where
  "interval l start now =
     \<lparr>rec_label = l, rec_seconds = now - start, rec_minutes = (now - start) / 60\<rparr>"

text \<open>
  Modelled from the spec: \<^verbatim>\<open>open(label)\<close> (\<^verbatim>\<open>tic\<close>): the label is pushed
  unconditionally, with the clock reading \<open>now\<close> taken by the call.
\<close>

definition tic :: "string \<Rightarrow> real \<Rightarrow> SmartTimer \<Rightarrow> SmartTimer" where
  "tic l now s =
     s\<lparr>slots := slots s @ [Pending l now], last_open := Some l\<rparr>"

text \<open>
  Modelled from the spec: closing the first pending interval of a list whose label
  satisfies \<open>P\<close>; \<open>None\<close> when there is none.
\<close>

fun close_first :: "(string \<Rightarrow> bool) \<Rightarrow> real \<Rightarrow> slot list \<Rightarrow> slot list option" where
  "close_first P now [] = None"
| "close_first P now (Pending l t # xs) =
     (if P l then Some (Closed (interval l t now) # xs)
      else map_option (\<lambda>ys. Pending l t # ys) (close_first P now xs))"
| "close_first P now (Closed r # xs) =
     map_option (\<lambda>ys. Closed r # ys) (close_first P now xs)"

text \<open>
  Modelled from the spec: closing the pending interval nearest the top of the stack
  whose label satisfies \<open>P\<close>; the other intervals keep their places.
\<close>

definition close_last :: "(string \<Rightarrow> bool) \<Rightarrow> real \<Rightarrow> slot list \<Rightarrow> slot list option" where
  "close_last P now xs = map_option rev (close_first P now (rev xs))"

text \<open>
  Modelled from the spec: \<^verbatim>\<open>close(label)\<close> (\<^verbatim>\<open>toc\<close>), 4.2; \<open>PNone\<close> is the omitted
  label and \<open>now\<close> the clock reading taken by the call. A label that is not a string
  is a \<open>TypeError\<close>. With a pending interval: without label the top of the stack is
  closed, with a label the pending interval of that label (the one nearest the top),
  and a label that is not pending is a \<open>KeyError\<close>. With an empty stack: when no
  close has gone before, the call fails (\<open>StateError\<close> without label, the spec's
  \<open>KeyError\<close> with one); after a close it is the cascading close, which appends a
  record measured from the reading of the previous close (4.2 item 2; section 8: the
  span starts where the first ended), under the label given (the label of the latest
  open when none is given).
\<close>

definition toc :: "pyval \<Rightarrow> real \<Rightarrow> SmartTimer \<Rightarrow> error + SmartTimer" where
  "toc lbl now s =
     (if lbl \<noteq> PNone \<and> \<not> is_str lbl then Inl TypeError
      else if pending s \<noteq> [] then
        (case close_last (\<lambda>l. lbl = PNone \<or> lbl = PStr l) now (slots s) of
           None \<Rightarrow> Inl KeyError
         | Some xs \<Rightarrow> Inr (s\<lparr>slots := xs, last_close := Some now\<rparr>))
      else
        (case last_close s of
           None \<Rightarrow> if lbl = PNone then Inl StateError else Inl KeyError
         | Some t1 \<Rightarrow>
             Inr (s\<lparr>slots := slots s @
                           [Closed (interval
                              (case lbl of
                                 PStr l \<Rightarrow> l
                               | _ \<Rightarrow> (case last_open s of None \<Rightarrow> [] | Some l0 \<Rightarrow> l0))
                              t1 now)],
                     last_close := Some now\<rparr>)))"

text \<open>
  Modelled from the spec: the sum of the seconds of all closed records, which section
  4.3 has as \<^verbatim>\<open>walltime()\<close>.
\<close>

definition sum_of_seconds :: "SmartTimer \<Rightarrow> real" where
  "sum_of_seconds s = sum_list (map rec_seconds (closed_records s))"

text \<open>
  Modelled from the spec: \<^verbatim>\<open>clear()\<close> of the tracker empties records and stack and keeps
  the name; \<^verbatim>\<open>reset()\<close> also restores the default clock name and, by \<^verbatim>\<open>test_Reset\<close>,
  the default name.
\<close>

definition tracker_clear :: "SmartTimer \<Rightarrow> SmartTimer" where
  "tracker_clear s =
     s\<lparr>slots := [], last_open := None, last_close := None\<rparr>"

text \<open>Modelled from the spec: \<^verbatim>\<open>reset()\<close> of the tracker (section 8, \<^verbatim>\<open>test_Reset\<close>).\<close>

definition tracker_reset :: "env \<Rightarrow> SmartTimer \<Rightarrow> SmartTimer" where
  "tracker_reset env s =
     (tracker_clear s)\<lparr>name := DEFAULT_NAME, tracker_clock_name := DEFAULT_CLOCK_NAME env\<rparr>"

text \<open>Modelled from the spec: a sequence of calls of \<^verbatim>\<open>open\<close> and \<^verbatim>\<open>close\<close>.\<close>

datatype call = Open string real | Close pyval real

text \<open>Modelled from the spec: running the calls in order, up to the first that fails.\<close>

fun run :: "call list \<Rightarrow> SmartTimer \<Rightarrow> error + SmartTimer" where
  "run [] s = Inr s"
| "run (Open l now # cs) s = run cs (tic l now s)"
| "run (Close lbl now # cs) s =
     (case toc lbl now s of Inl e \<Rightarrow> Inl e | Inr s' \<Rightarrow> run cs s')"

text \<open>
  Modelled from the spec: what the tests read from a tracker: \<^verbatim>\<open>labels\<close> (every interval,
  from its open on), \<^verbatim>\<open>active_labels\<close> (the stack) and \<^verbatim>\<open>seconds\<close> (of the closed records).
\<close>

fun slot_label :: "slot \<Rightarrow> string" where
  "slot_label (Pending l t) = l"
| "slot_label (Closed r) = rec_label r"

text \<open>Modelled from the spec: the tracker's \<^verbatim>\<open>labels\<close>.\<close>

definition labels :: "SmartTimer \<Rightarrow> string list" where
  "labels s = map slot_label (slots s)"

text \<open>Modelled from the spec: the tracker's \<^verbatim>\<open>active_labels\<close>.\<close>

definition active_labels :: "SmartTimer \<Rightarrow> string list" where
  "active_labels s = map fst (pending s)"

text \<open>Modelled from the spec: the tracker's \<^verbatim>\<open>seconds\<close>.\<close>

definition tracker_seconds :: "SmartTimer \<Rightarrow> real list" where
  "tracker_seconds s = map rec_seconds (closed_records s)"

section \<open>Examples\<close>

definition example_timer :: "string \<Rightarrow> real \<Rightarrow> string \<Rightarrow> nat \<Rightarrow> Timer" where
  "example_timer l x n f =
     \<lparr>label = l, seconds = Fin x, minutes = Fin (x / 60), clock_name = n, clock = PFunc f\<rparr>"

text \<open>
  The invariant of an instance's recorded time, in Python's comparisons:
  \<^verbatim>\<open>0. <= seconds and minutes == seconds / 60.\<close>: false of NaN seconds.
\<close>

definition time_inv :: "Timer \<Rightarrow> bool" where
  "time_inv t = (fle (Fin 0) (seconds t) \<and> feq (minutes t) (fdiv60 (seconds t)))"

text \<open>
  An instance whose clock name is one the setter can have left: not empty, and a key
  of the registry. It is so when the setter returns; it stays so unless the clock is
  unregistered afterwards.
\<close>

definition registered :: "package \<Rightarrow> env \<Rightarrow> Timer \<Rightarrow> bool" where
  "registered pkg env t =
     (clock_name t \<noteq> [] \<and> \<not> isl (getitem pkg (CLOCKS env) (PStr (clock_name t))))"

text \<open>A number that is not negative: \<^verbatim>\<open>0 <= v\<close>, false of NaN.\<close>

fun nonnegative :: "pyval \<Rightarrow> bool" where
  "nonnegative (PInt i) = (0 \<le> i)"
| "nonnegative (PFloat x) = fle (Fin 0) x"
| "nonnegative v = False"

text \<open>The timing functions return numbers that are not negative.\<close>

definition nonnegative_readings :: "(nat \<Rightarrow> pyval) \<Rightarrow> bool" where
  "nonnegative_readings reading = (\<forall>f. nonnegative (reading f))"

section \<open>Properties of the registry\<close>

lemma list_all_update:
  "list_all P d \<Longrightarrow> P (k, v) \<Longrightarrow> list_all P (AList.update k v d)"
  by (induction d) (auto simp: list_all_iff)

lemma list_all_delete:
  "list_all P d \<Longrightarrow> list_all P (AList.delete k d)"
  by (induction d) (auto simp: list_all_iff AList.delete_eq)

section \<open>Properties of the Timer\<close>

text \<open>
  For a string key the two packages' lookups agree, so \<^verbatim>\<open>is_compatible\<close> is the same
  function in both.
\<close>

lemma getitem_str: "getitem pkg d (PStr n) = getitem_smarttimers d (PStr n)"
proof (cases pkg)
  case Smarttimers
  then show ?thesis by (simp add: getitem_def)
next
  case Smarttimer
  have "PStr n \<notin> fst ` set d \<Longrightarrow> map_of d (PStr n) = None"
    by (simp add: map_of_eq_None_iff)
  then show ?thesis
    using Smarttimer
    by (auto simp: getitem_def getitem_smarttimer_def getitem_smarttimers_def)
qed

lemma is_compatible_package:
  "is_compatible pkg env a other = is_compatible Smarttimers env a other"
  unfolding is_compatible_def getitem_str ..

lemma is_compatible_OValue: "is_compatible pkg env a (OValue v) = Inr False"
  by (simp add: is_compatible_def)

lemma getitem_initial:
  "getitem pkg initial_CLOCKS (PStr ''perf_counter'') = Inr (PFunc 0)"
  "getitem pkg initial_CLOCKS (PStr ''monotonic'') = Inr (PFunc 3)"
  "getitem pkg initial_CLOCKS (PStr ''time'') = Inr (PFunc 4)"
  by (simp_all add: getitem_str getitem_smarttimers_def initial_CLOCKS_def)

text \<open>
  Claim C4, as amended. For an operand that is not compatible (\<^verbatim>\<open>is_compatible\<close> answers
  false, which it does for every operand that is not a \<^verbatim>\<open>Timer\<close>), addition,
  subtraction, \<open><\<close>, \<open>\<le>\<close>, \<open>>\<close> and \<open>\<ge>\<close> fail with a compatibility error in both
  packages; equality fails with it in \<^verbatim>\<open>smarttimer\<close> and answers \<open>False\<close> in
  \<^verbatim>\<open>smarttimers\<close>.
\<close>

theorem incompatible_operations:
  assumes "is_compatible pkg env a other = Inr False"
  shows "add pkg env a other = Inl CompatibilityError \<and>
         sub pkg env a other = Inl CompatibilityError \<and>
         lt pkg env a other = Inl CompatibilityError \<and>
         le pkg env a other = Inl CompatibilityError \<and>
         gt pkg env a other = Inl CompatibilityError \<and>
         ge pkg env a other = Inl CompatibilityError \<and>
         eq Smarttimer env a other = Inl CompatibilityError \<and>
         eq Smarttimers env a other = Inr False"
proof -
  have c: "is_compatible Smarttimers env a other = Inr False"
    using assms is_compatible_package by metis
  have c': "is_compatible Smarttimer env a other = Inr False"
    using c is_compatible_package by metis
  have l: "lt pkg env a other = Inl CompatibilityError"
    using assms by (simp add: lt_def)
  show ?thesis
    using assms c c' l
    by (simp add: add_def sub_def le_def gt_def ge_def eq_def eq_smarttimer_def eq_smarttimers_def)
qed

text \<open>An instance: a timer on \<^verbatim>\<open>monotonic\<close> against one on \<^verbatim>\<open>time\<close>.\<close>

theorem incompatible_operations_witness:
  "is_compatible Smarttimer initial_env (example_timer ''a'' 1 ''monotonic'' 3)
     (OTimer (example_timer ''b'' 2 ''time'' 4)) = Inr False \<and>
   add Smarttimer initial_env (example_timer ''a'' 1 ''monotonic'' 3)
     (OTimer (example_timer ''b'' 2 ''time'' 4)) = Inl CompatibilityError \<and>
   ge Smarttimer initial_env (example_timer ''a'' 1 ''monotonic'' 3)
     (OTimer (example_timer ''b'' 2 ''time'' 4)) = Inl CompatibilityError \<and>
   eq Smarttimer initial_env (example_timer ''a'' 1 ''monotonic'' 3)
     (OTimer (example_timer ''b'' 2 ''time'' 4)) = Inl CompatibilityError"
proof -
  have h: "is_compatible Smarttimer initial_env (example_timer ''a'' 1 ''monotonic'' 3)
     (OTimer (example_timer ''b'' 2 ''time'' 4)) = Inr False"
    by (simp add: is_compatible_def initial_env_def example_clock_info_def example_timer_def)
  show ?thesis
    using h incompatible_operations [OF h] by simp
qed

text \<open>
  Claim C4 as stated fails: in \<^verbatim>\<open>smarttimers\<close> equality does not raise for an incompatible
  operand, be it a \<^verbatim>\<open>Timer\<close> on another clock or a value that is not a \<^verbatim>\<open>Timer\<close>.
\<close>

theorem equals_incompatible_counterexample:
  "is_compatible Smarttimers initial_env (example_timer ''a'' 1 ''monotonic'' 3)
     (OTimer (example_timer ''b'' 2 ''time'' 4)) = Inr False \<and>
   eq Smarttimers initial_env (example_timer ''a'' 1 ''monotonic'' 3)
     (OTimer (example_timer ''b'' 2 ''time'' 4)) \<noteq> Inl CompatibilityError \<and>
   is_compatible Smarttimers initial_env (example_timer ''a'' 1 ''monotonic'' 3)
     (OValue (PInt 1)) = Inr False \<and>
   eq Smarttimers initial_env (example_timer ''a'' 1 ''monotonic'' 3)
     (OValue (PInt 1)) \<noteq> Inl CompatibilityError"
  by (simp add: is_compatible_def initial_env_def example_clock_info_def example_timer_def
      eq_def eq_smarttimers_def)

text \<open>Floats within the range, and the comparisons with zero.\<close>

lemma float_limit_large: "10 ^ 300 < float_limit"
  by (simp add: float_limit_def)


lemma feq_eq: "feq x y \<Longrightarrow> x = y"
  by (simp add: feq_def)

lemma fle_0: "fle (Fin 0) x = (x = PosInf \<or> (\<exists>r. x = Fin r \<and> 0 \<le> r))"
  by (cases x) (auto simp: fle_def feq_def)

lemma flt_0: "flt x (Fin 0) = (x = NegInf \<or> (\<exists>r. x = Fin r \<and> r < 0))"
  by (cases x) auto



text \<open>
  The label of a sum or a difference: an empty label is left out of the join.
\<close>

lemma join_two:
  "join sep (filter_None [x, y]) = (if x = [] then y else if y = [] then x else x @ sep @ y)"
  by (simp add: filter_None_def)

lemma registered_getitem:
  "registered pkg env t \<Longrightarrow> \<exists>f. getitem pkg (CLOCKS env) (PStr (clock_name t)) = Inr f"
  by (cases "getitem pkg (CLOCKS env) (PStr (clock_name t))") (auto simp: registered_def)

lemma registered_package: "registered pkg env t = registered Smarttimers env t"
  by (simp add: registered_def getitem_str)

lemma is_compatible_total:
  assumes "registered pkg env a" and "registered pkg env b"
  shows "\<exists>c. is_compatible pkg env a (OTimer b) = Inr c"
proof -
  obtain f where f: "getitem pkg (CLOCKS env) (PStr (clock_name a)) = Inr f"
    using assms(1) registered_getitem by blast
  obtain g where g: "getitem pkg (CLOCKS env) (PStr (clock_name b)) = Inr g"
    using assms(2) registered_getitem by blast
  show ?thesis
    by (simp add: is_compatible_def f g split: option.splits)
qed






text \<open>
  Claim C10, as amended. In \<^verbatim>\<open>smarttimers\<close>, equality with a value that is not a \<^verbatim>\<open>Timer\<close>
  is \<open>False\<close>. Equality of two timers answers, whenever \<^verbatim>\<open>is_compatible\<close> answers,
  \<open>False\<close> for clocks that are not compatible and else whether the seconds are equal;
  it does so whenever both clock names are registered. It never raises a compatibility
  error: the one exception it raises is the \<open>KeyError\<close> of the registry lookup in
  \<^verbatim>\<open>is_compatible\<close>, when \<^verbatim>\<open>time.get_clock_info\<close> does not know one of the two clock names
  and one of them is not registered.
\<close>

theorem equals_smarttimers_result:
  "eq_smarttimers env a (OValue v) = Inr False \<and>
   (is_compatible Smarttimers env a (OTimer b) = Inr c \<longrightarrow>
      eq_smarttimers env a (OTimer b) = Inr (c \<and> feq (seconds a) (seconds b))) \<and>
   (registered Smarttimers env a \<and> registered Smarttimers env b \<longrightarrow>
      (\<exists>c. is_compatible Smarttimers env a (OTimer b) = Inr c \<and>
           eq_smarttimers env a (OTimer b) = Inr (c \<and> feq (seconds a) (seconds b)))) \<and>
   (eq_smarttimers env a other = Inl e \<longrightarrow>
      e = KeyError \<and>
      (\<exists>t. other = OTimer t \<and>
           (get_clock_info env (clock_name a) = None \<or>
            get_clock_info env (clock_name t) = None) \<and>
           (isl (getitem Smarttimers (CLOCKS env) (PStr (clock_name a))) \<or>
            isl (getitem Smarttimers (CLOCKS env) (PStr (clock_name t))))))"
proof -
  have 1: "eq_smarttimers env a (OValue v) = Inr False"
    by (simp add: eq_smarttimers_def is_compatible_OValue)
  have 2: "is_compatible Smarttimers env a (OTimer b) = Inr c \<longrightarrow>
      eq_smarttimers env a (OTimer b) = Inr (c \<and> feq (seconds a) (seconds b))"
    by (simp add: eq_smarttimers_def)
  have 3: "registered Smarttimers env a \<and> registered Smarttimers env b \<longrightarrow>
      (\<exists>c. is_compatible Smarttimers env a (OTimer b) = Inr c \<and>
           eq_smarttimers env a (OTimer b) = Inr (c \<and> feq (seconds a) (seconds b)))"
    using is_compatible_total [of Smarttimers env a b] 2
    by (auto simp: eq_smarttimers_def)
  have 4: "eq_smarttimers env a other = Inl e \<longrightarrow>
      e = KeyError \<and>
      (\<exists>t. other = OTimer t \<and>
           (get_clock_info env (clock_name a) = None \<or>
            get_clock_info env (clock_name t) = None) \<and>
           (isl (getitem Smarttimers (CLOCKS env) (PStr (clock_name a))) \<or>
            isl (getitem Smarttimers (CLOCKS env) (PStr (clock_name t)))))"
  proof (cases other)
    case (OValue w)
    then show ?thesis
      by (simp add: eq_smarttimers_def is_compatible_OValue)
  next
    case (OTimer t)
    then show ?thesis
      by (auto simp: eq_smarttimers_def is_compatible_def getitem_def getitem_smarttimers_def
          split: sum.splits option.splits if_splits)
  qed
  show ?thesis
    by (intro conjI) (rule 1 2 3 4)+
qed

text \<open>Instances: clocks that are not compatible, a timer and itself, a timer and \<^verbatim>\<open>None\<close>.\<close>

theorem equals_smarttimers_result_witness:
  "registered Smarttimers initial_env (example_timer ''a'' 2 ''monotonic'' 3) \<and>
   registered Smarttimers initial_env (example_timer ''b'' 2 ''time'' 4) \<and>
   eq_smarttimers initial_env (example_timer ''a'' 2 ''monotonic'' 3)
     (OTimer (example_timer ''b'' 2 ''time'' 4)) = Inr False \<and>
   eq_smarttimers initial_env (example_timer ''a'' 2 ''monotonic'' 3)
     (OTimer (example_timer ''a'' 2 ''monotonic'' 3)) = Inr True \<and>
   eq_smarttimers initial_env (example_timer ''a'' 2 ''monotonic'' 3) (OValue PNone) = Inr False"
proof -
  have ra: "registered Smarttimers initial_env (example_timer ''a'' 2 ''monotonic'' 3)"
    by (simp add: registered_def initial_env_def example_timer_def getitem_initial)
  have rb: "registered Smarttimers initial_env (example_timer ''b'' 2 ''time'' 4)"
    by (simp add: registered_def initial_env_def example_timer_def getitem_initial)
  have cab: "is_compatible Smarttimers initial_env (example_timer ''a'' 2 ''monotonic'' 3)
     (OTimer (example_timer ''b'' 2 ''time'' 4)) = Inr False"
    by (simp add: is_compatible_def initial_env_def example_clock_info_def example_timer_def)
  have caa: "is_compatible Smarttimers initial_env (example_timer ''a'' 2 ''monotonic'' 3)
     (OTimer (example_timer ''a'' 2 ''monotonic'' 3)) = Inr True"
    by (simp add: is_compatible_def initial_env_def example_clock_info_def example_timer_def)
  have 1: "eq_smarttimers initial_env (example_timer ''a'' 2 ''monotonic'' 3)
     (OTimer (example_timer ''b'' 2 ''time'' 4)) = Inr False"
    using cab equals_smarttimers_result [of initial_env "example_timer ''a'' 2 ''monotonic'' 3"
        PNone "example_timer ''b'' 2 ''time'' 4" False]
    by simp
  have 2: "eq_smarttimers initial_env (example_timer ''a'' 2 ''monotonic'' 3)
     (OTimer (example_timer ''a'' 2 ''monotonic'' 3)) = Inr True"
    using caa equals_smarttimers_result [of initial_env "example_timer ''a'' 2 ''monotonic'' 3"
        PNone "example_timer ''a'' 2 ''monotonic'' 3" True]
    by (simp add: example_timer_def feq_def)
  have 3: "eq_smarttimers initial_env (example_timer ''a'' 2 ''monotonic'' 3) (OValue PNone)
      = Inr False"
    using equals_smarttimers_result [of initial_env "example_timer ''a'' 2 ''monotonic'' 3" PNone]
    by simp
  show ?thesis
    using ra rb 1 2 3 by simp
qed

text \<open>
  Claim C10 as stated fails: equality can raise. A clock \<^verbatim>\<open>custom\<close> is registered, a
  timer is constructed on it, the clock is unregistered, and the timer is compared with
  itself: \<^verbatim>\<open>time.get_clock_info\<close> does not know \<^verbatim>\<open>custom\<close>, and the registry lookup in
  \<^verbatim>\<open>is_compatible\<close> raises \<open>KeyError\<close>.
\<close>

theorem equals_raises_counterexample:
  "register_clock Smarttimers initial_CLOCKS (PStr ''custom'') (PFunc 5)
     = (None, initial_CLOCKS @ [(PStr ''custom'', PFunc 5)]) \<and>
   Timer_init Smarttimers
     (initial_env\<lparr>CLOCKS := initial_CLOCKS @ [(PStr ''custom'', PFunc 5)]\<rparr>) (PStr ''a'')
     \<lparr>kw_seconds = None, kw_clock_name = Some (PStr ''custom''), kw_timer = None\<rparr>
     = Inr (example_timer ''a'' 0 ''custom'' 5) \<and>
   unregister_clock Smarttimers (initial_CLOCKS @ [(PStr ''custom'', PFunc 5)]) (PStr ''custom'')
     = (None, initial_CLOCKS) \<and>
   eq_smarttimers initial_env (example_timer ''a'' 0 ''custom'' 5)
     (OTimer (example_timer ''a'' 0 ''custom'' 5)) = Inl KeyError"
  by (simp add: register_clock_def setitem_def setitem_smarttimers_def unregister_clock_def
      getitem_def getitem_smarttimers_def initial_CLOCKS_def initial_env_def
      example_clock_info_def example_timer_def Timer_init_def init_smarttimers_def
      label_setter_def set_time_smarttimers_def clock_name_setter_def new_object_def
      eq_smarttimers_def is_compatible_def AList.delete_eq)

text \<open>
  The invariant of the recorded time, operation by operation. \<^verbatim>\<open>_set_time\<close> stores the
  float of its argument and that float's sixtieth; the invariant holds of the result
  when the argument is a number that is not negative.
\<close>

lemma nonnegative_float:
  "nonnegative v \<Longrightarrow> py_float v = Inr x \<Longrightarrow> fle (Fin 0) x"
  by (cases v) (auto split: if_splits simp: fle_def feq_def)

lemma nonnegative_not_negative: "nonnegative v \<Longrightarrow> is_number v \<and> \<not> negative v"
  by (cases v) (auto simp: fle_0)

lemma not_negative_nonnegative:
  "is_number v \<Longrightarrow> \<not> negative v \<Longrightarrow> v \<noteq> PFloat NaN \<Longrightarrow> nonnegative v"
proof (cases v)
  case (PFloat x)
  assume "\<not> negative v" and "v \<noteq> PFloat NaN"
  then show ?thesis
    using PFloat by (cases x) (auto simp: fle_def feq_def)
qed auto

lemma time_inv_I:
  "fle (Fin 0) x \<Longrightarrow> seconds t = x \<Longrightarrow> minutes t = fdiv60 x \<Longrightarrow> time_inv t"
  by (cases x) (auto simp: time_inv_def fle_def feq_def)

lemma set_time_result:
  assumes "set_time pkg v t = Inr t'"
  shows "\<exists>x. py_float v = Inr x \<and> t' = t\<lparr>seconds := x, minutes := fdiv60 x\<rparr>"
  using assms
  by (cases pkg) (auto simp: set_time_def set_time_smarttimers_def set_time_smarttimer_def
      split: sum.splits if_splits)

lemma set_time_inv:
  assumes "set_time pkg v t = Inr t'" and "nonnegative v"
  shows "time_inv t'"
proof -
  obtain x where x: "py_float v = Inr x" and t': "t' = t\<lparr>seconds := x, minutes := fdiv60 x\<rparr>"
    using set_time_result [OF assms(1)] by blast
  have "fle (Fin 0) x"
    using assms(2) x by (rule nonnegative_float)
  then show ?thesis
    using t' by (auto intro: time_inv_I)
qed

lemma clear_eq: "clear pkg t = Inr (t\<lparr>seconds := Fin 0, minutes := Fin 0\<rparr>)"
  using float_limit_large
  by (cases pkg) (simp_all add: clear_def set_time_def set_time_smarttimers_def
      set_time_smarttimer_def)

lemma clear_inv: "clear pkg t = Inr t' \<Longrightarrow> time_inv t'"
  by (auto simp: clear_eq time_inv_def fle_def feq_def)

lemma clock_name_setter_inv:
  assumes "clock_name_setter pkg env has_attr n t = Inr t'" and "time_inv t"
  shows "time_inv t'"
proof -
  have u: "\<And>s n f. time_inv (s\<lparr>clock_name := n, clock := f\<rparr>) = time_inv s"
    by (simp add: time_inv_def)
  show ?thesis
    using assms
    by (auto simp: clock_name_setter_def u Let_def
        split: pyval.splits sum.splits if_splits dest: clear_inv)
qed

lemma time_inv_nonnegative: "time_inv src \<Longrightarrow> nonnegative (PFloat (seconds src))"
  by (simp add: time_inv_def)

lemma init_smarttimers_inv:
  assumes "init_smarttimers env lbl kw = Inr t"
    and "\<And>src. kw_timer kw = Some src \<Longrightarrow> time_inv src"
    and "kw_timer kw = None \<Longrightarrow> kw_seconds kw \<noteq> Some (PFloat NaN)"
  shows "time_inv t"
proof (cases "kw_timer kw")
  case None
  define secs where "secs = (case kw_seconds kw of None \<Rightarrow> PFloat (Fin 0) | Some v \<Rightarrow> v)"
  obtain self1 n where s: "set_time_smarttimers secs self1 = Inr n"
    and c: "\<exists>m. clock_name_setter Smarttimers env False m n = Inr t"
    using assms(1) None
    by (auto simp: init_smarttimers_def secs_def split: sum.splits)
  have "is_number secs \<and> \<not> negative secs"
    using s by (auto simp: set_time_smarttimers_def split: if_splits)
  moreover have "secs \<noteq> PFloat NaN"
    using assms(3) None by (auto simp: secs_def split: option.splits)
  ultimately have "nonnegative secs"
    by (simp add: not_negative_nonnegative)
  then have "time_inv n"
    using s set_time_inv [of Smarttimers secs self1 n] by (simp add: set_time_def)
  then show ?thesis
    using c clock_name_setter_inv by blast
next
  case (Some src)
  then have p: "nonnegative (PFloat (seconds src))"
    using assms(2) time_inv_nonnegative by blast
  obtain self1 n where s: "set_time_smarttimers (PFloat (seconds src)) self1 = Inr n"
    and c: "\<exists>m. clock_name_setter Smarttimers env False m n = Inr t"
    using assms(1) Some
    by (auto simp: init_smarttimers_def split: sum.splits)
  have "time_inv n"
    using s p set_time_inv [of Smarttimers "PFloat (seconds src)" self1 n]
    by (simp add: set_time_def)
  then show ?thesis
    using c clock_name_setter_inv by blast
qed

lemma init_smarttimer_inv:
  assumes "init_smarttimer env lbl kw = Inr t"
    and "\<And>src. kw_timer kw = Some src \<Longrightarrow> time_inv src"
    and "kw_timer kw = None \<Longrightarrow> kw_seconds kw \<noteq> Some (PFloat NaN)"
  shows "time_inv t"
proof (cases "kw_timer kw")
  case None
  define secs where "secs = (case kw_seconds kw of None \<Rightarrow> PFloat (Fin 0) | Some v \<Rightarrow> v)"
  obtain self1 n where s: "set_time_smarttimer secs self1 = Inr n"
    and x: "is_number secs \<and> \<not> negative secs"
    and c: "\<exists>m. clock_name_setter Smarttimer env False m n = Inr t"
    using assms(1) None
    by (auto simp: init_smarttimer_def Let_def secs_def split: sum.splits if_splits)
  have "secs \<noteq> PFloat NaN"
    using assms(3) None by (auto simp: secs_def split: option.splits)
  then have "nonnegative secs"
    using x by (simp add: not_negative_nonnegative)
  then have "time_inv n"
    using s set_time_inv [of Smarttimer secs self1 n] by (simp add: set_time_def)
  then show ?thesis
    using c clock_name_setter_inv by blast
next
  case (Some src)
  then have p: "nonnegative (PFloat (seconds src))"
    using assms(2) time_inv_nonnegative by blast
  obtain self1 n where s: "set_time_smarttimer (PFloat (seconds src)) self1 = Inr n"
    and c: "\<exists>m. clock_name_setter Smarttimer env False m n = Inr t"
    using assms(1) Some
    by (auto simp: init_smarttimer_def split: sum.splits)
  have "time_inv n"
    using s p set_time_inv [of Smarttimer "PFloat (seconds src)" self1 n]
    by (simp add: set_time_def)
  then show ?thesis
    using c clock_name_setter_inv by blast
qed

lemma Timer_init_inv:
  assumes "Timer_init pkg env lbl kw = Inr t"
    and "\<And>src. kw_timer kw = Some src \<Longrightarrow> time_inv src"
    and "kw_timer kw = None \<Longrightarrow> kw_seconds kw \<noteq> Some (PFloat NaN)"
  shows "time_inv t"
proof (cases pkg)
  case Smarttimers
  then have "init_smarttimers env lbl kw = Inr t"
    using assms(1) by (simp add: Timer_init_def)
  then show ?thesis
    using assms(2) assms(3) by (rule init_smarttimers_inv)
next
  case Smarttimer
  then have "init_smarttimer env lbl kw = Inr t"
    using assms(1) by (simp add: Timer_init_def)
  then show ?thesis
    using assms(2) assms(3) by (rule init_smarttimer_inv)
qed

text \<open>
  Sums and absolute differences of seconds that are not negative: the sum is not
  negative; the difference of two infinities is NaN.
\<close>

lemma to_range_not_NaN: "to_range x \<noteq> NaN"
  by (simp add: to_range_def)

lemma float_limit_positive: "0 < float_limit"
  using float_limit_large by (simp add: order_less_trans [of 0 "10 ^ 300"])

lemma to_range_nonnegative: "0 \<le> z \<Longrightarrow> fle (Fin 0) (to_range z) \<and> to_range z \<noteq> NaN"
  using float_limit_positive by (simp add: to_range_def fle_0)

lemma fadd_nonnegative:
  assumes "fle (Fin 0) x" and "fle (Fin 0) y"
  shows "fle (Fin 0) (fadd x y) \<and> fadd x y \<noteq> NaN"
proof (cases x)
  case (Fin r)
  show ?thesis
  proof (cases y)
    case (Fin q)
    then show ?thesis
      using assms \<open>x = Fin r\<close> to_range_nonnegative [of "r + q"] by (simp add: fle_0)
  qed (use assms \<open>x = Fin r\<close> in \<open>auto simp: fle_0\<close>)
next
  case PosInf
  then show ?thesis
    using assms by (cases y) (auto simp: fle_0)
qed (use assms in \<open>auto simp: fle_0\<close>)

lemma fabs_to_range: "fle (Fin 0) (fabs (to_range z)) \<and> fabs (to_range z) \<noteq> NaN"
  by (simp add: to_range_def fle_0)

lemma fabs_fsub_nonnegative:
  assumes "fle (Fin 0) x" and "fle (Fin 0) y" and "\<not> (x = PosInf \<and> y = PosInf)"
  shows "fle (Fin 0) (fabs (fsub x y)) \<and> fabs (fsub x y) \<noteq> NaN"
proof (cases x)
  case (Fin r)
  show ?thesis
  proof (cases y)
    case (Fin q)
    then show ?thesis
      using \<open>x = Fin r\<close> fabs_to_range [of "r - q"] by (simp add: fsub_def)
  qed (use assms \<open>x = Fin r\<close> in \<open>auto simp: fle_0 fsub_def\<close>)
next
  case PosInf
  then show ?thesis
    using assms by (cases y) (auto simp: fle_0 fsub_def)
qed (use assms in \<open>auto simp: fle_0\<close>)

lemma add_inv:
  assumes "add pkg env a (OTimer b) = Inr c" and "time_inv a" and "time_inv b"
  shows "time_inv c"
proof -
  have n: "fadd (seconds a) (seconds b) \<noteq> NaN"
    using assms(2) assms(3) fadd_nonnegative by (simp add: time_inv_def)
  have i: "Timer_init pkg env (PStr (join ''+'' (filter_None [label a, label b])))
       \<lparr>kw_seconds = Some (PFloat (fadd (seconds a) (seconds b))),
        kw_clock_name = Some (PStr (clock_name a)), kw_timer = None\<rparr> = Inr c"
    using assms(1) by (auto simp: add_def split: sum.splits if_splits)
  show ?thesis
    using i n by (auto intro: Timer_init_inv)
qed

lemma sub_inv:
  assumes "sub pkg env a (OTimer b) = Inr c" and "time_inv a" and "time_inv b"
    and "\<not> (seconds a = PosInf \<and> seconds b = PosInf)"
  shows "time_inv c"
proof -
  have n: "fabs (fsub (seconds a) (seconds b)) \<noteq> NaN"
    using assms(2) assms(3) assms(4) fabs_fsub_nonnegative by (simp add: time_inv_def)
  have i: "Timer_init pkg env (PStr (join ''-'' (filter_None [label a, label b])))
       \<lparr>kw_seconds = Some (PFloat (fabs (fsub (seconds a) (seconds b)))),
        kw_clock_name = Some (PStr (clock_name a)), kw_timer = None\<rparr> = Inr c"
    using assms(1) by (auto simp: sub_def split: sum.splits if_splits)
  show ?thesis
    using i n by (auto intro: Timer_init_inv)
qed

lemma time_inv_time:
  assumes "time pkg reading t = Inr (t', r)" and "nonnegative_readings reading"
  shows "time_inv t' \<and> r = seconds t'"
proof -
  obtain f where f: "clock t = PFunc f"
    using assms(1) by (auto simp: time_def split: pyval.splits)
  have n: "nonnegative (reading f)"
    using assms(2) by (simp add: nonnegative_readings_def)
  have s: "set_time pkg (reading f) t = Inr t'" and r: "r = seconds t'"
    using assms(1) f by (auto simp: time_def split: sum.splits)
  show ?thesis
    using set_time_inv [OF s n] r by simp
qed

lemma reset_inv: "reset pkg env t = Inr t' \<Longrightarrow> time_inv t'"
  by (auto simp: reset_def split: sum.splits dest: clear_inv)

text \<open>Construction with seconds: negative, out of range, NaN, and not negative.\<close>

lemma init_negative:
  assumes "negative v"
  shows "Timer_init pkg env (PStr l)
           \<lparr>kw_seconds = Some v, kw_clock_name = c, kw_timer = None\<rparr> = Inl ValueError"
proof -
  have "is_number v"
    using assms by (cases v) auto
  then show ?thesis
    using assms
    by (cases pkg) (simp_all add: Timer_init_def init_smarttimers_def init_smarttimer_def
        label_setter_def set_time_smarttimers_def)
qed

lemma init_overflow:
  assumes "float_limit \<le> real_of_int i"
  shows "Timer_init pkg env (PStr l)
           \<lparr>kw_seconds = Some (PInt i), kw_clock_name = c, kw_timer = None\<rparr> = Inl OverflowError"
proof -
  have "\<not> i < 0" and "float_limit \<le> \<bar>real_of_int i\<bar>"
    using assms float_limit_positive by auto
  then show ?thesis
    by (cases pkg) (simp_all add: Timer_init_def init_smarttimers_def init_smarttimer_def
        label_setter_def set_time_smarttimers_def set_time_smarttimer_def)
qed

lemma init_default_clock:
  assumes "getitem pkg (CLOCKS env) (PStr (DEFAULT_CLOCK_NAME env)) = Inr f"
    and "is_number v" and "\<not> negative v" and "py_float v = Inr x"
  shows "Timer_init pkg env (PStr l) \<lparr>kw_seconds = Some v, kw_clock_name = None, kw_timer = None\<rparr>
         = Inr \<lparr>label = l, seconds = x, minutes = fdiv60 x,
                clock_name = DEFAULT_CLOCK_NAME env, clock = f\<rparr>"
  using assms
  by (cases pkg) (simp_all add: Timer_init_def init_smarttimers_def init_smarttimer_def
      label_setter_def set_time_smarttimers_def set_time_smarttimer_def clock_name_setter_def
      new_object_def)

lemma init_nan:
  assumes "getitem pkg (CLOCKS env) (PStr (DEFAULT_CLOCK_NAME env)) = Inr f"
  shows "Timer_init pkg env (PStr l)
           \<lparr>kw_seconds = Some (PFloat NaN), kw_clock_name = None, kw_timer = None\<rparr>
         = Inr \<lparr>label = l, seconds = NaN, minutes = NaN,
                clock_name = DEFAULT_CLOCK_NAME env, clock = f\<rparr>"
  using init_default_clock [OF assms, of "PFloat NaN" NaN l] by simp

text \<open>
  Claim C6, as amended. \<open>0 \<le> seconds\<close> and \<open>minutes = seconds / 60\<close>, as comparisons of
  floats, hold of the result of: a construction that returns, when it is from a source
  timer that has the invariant or from seconds other than NaN; \<^verbatim>\<open>time\<close>, when the timing
  functions return numbers that are not negative (and not NaN); an addition of two timers
  that have the invariant; a subtraction of two such timers whose seconds are not both
  infinite; \<^verbatim>\<open>clear\<close> (which always returns); \<^verbatim>\<open>reset\<close>; and the assignment of a clock
  name to a timer that has the invariant. A construction on the registered default clock
  with a number that is not negative and that \<^verbatim>\<open>float\<close> converts to \<open>x\<close> returns an instance
  with seconds \<open>x\<close> and minutes \<open>x / 60\<close>; with a negative number it fails with a
  \<open>ValueError\<close>; with an integer of \<open>2\<^sup>1\<^sup>0\<^sup>2\<^sup>4 - 2\<^sup>9\<^sup>7\<^sup>0\<close> or more it fails with an
  \<open>OverflowError\<close>; with NaN it returns an instance whose seconds and minutes are NaN, of
  which the invariant is false. Both packages.
\<close>

theorem time_invariant:
  "(Timer_init pkg env lbl kw = Inr ta \<and> (\<forall>src. kw_timer kw = Some src \<longrightarrow> time_inv src) \<and>
    (kw_timer kw = None \<longrightarrow> kw_seconds kw \<noteq> Some (PFloat NaN))
      \<longrightarrow> time_inv ta) \<and>
   (time pkg reading t = Inr (tb, r) \<and> nonnegative_readings reading
      \<longrightarrow> time_inv tb \<and> r = seconds tb) \<and>
   (add pkg env a (OTimer b) = Inr tc \<and> time_inv a \<and> time_inv b \<longrightarrow> time_inv tc) \<and>
   (sub pkg env a (OTimer b) = Inr td \<and> time_inv a \<and> time_inv b \<and>
    \<not> (seconds a = PosInf \<and> seconds b = PosInf) \<longrightarrow> time_inv td) \<and>
   (\<exists>te. clear pkg t = Inr te \<and> time_inv te) \<and>
   (reset pkg env t = Inr tf \<longrightarrow> time_inv tf) \<and>
   (clock_name_setter pkg env has_attr n t = Inr tg \<and> time_inv t \<longrightarrow> time_inv tg) \<and>
   (getitem pkg (CLOCKS env) (PStr (DEFAULT_CLOCK_NAME env)) = Inr f \<and>
    nonnegative v \<and> py_float v = Inr x
      \<longrightarrow> (\<exists>th. Timer_init pkg env (PStr l)
                  \<lparr>kw_seconds = Some v, kw_clock_name = None, kw_timer = None\<rparr> = Inr th \<and>
                seconds th = x \<and> minutes th = fdiv60 x \<and> time_inv th)) \<and>
   (negative v
      \<longrightarrow> Timer_init pkg env (PStr l)
            \<lparr>kw_seconds = Some v, kw_clock_name = c, kw_timer = None\<rparr> = Inl ValueError) \<and>
   (float_limit \<le> real_of_int i
      \<longrightarrow> Timer_init pkg env (PStr l)
            \<lparr>kw_seconds = Some (PInt i), kw_clock_name = c, kw_timer = None\<rparr>
          = Inl OverflowError) \<and>
   (getitem pkg (CLOCKS env) (PStr (DEFAULT_CLOCK_NAME env)) = Inr f
      \<longrightarrow> (\<exists>tn. Timer_init pkg env (PStr l)
                  \<lparr>kw_seconds = Some (PFloat NaN), kw_clock_name = None, kw_timer = None\<rparr>
                 = Inr tn \<and> seconds tn = NaN \<and> minutes tn = NaN \<and> \<not> time_inv tn))"
proof -
  have 1: "Timer_init pkg env lbl kw = Inr ta \<and>
      (\<forall>src. kw_timer kw = Some src \<longrightarrow> time_inv src) \<and>
      (kw_timer kw = None \<longrightarrow> kw_seconds kw \<noteq> Some (PFloat NaN))
      \<longrightarrow> time_inv ta"
  proof (intro impI, elim conjE)
    assume i: "Timer_init pkg env lbl kw = Inr ta"
      and s: "\<forall>src. kw_timer kw = Some src \<longrightarrow> time_inv src"
      and k: "kw_timer kw = None \<longrightarrow> kw_seconds kw \<noteq> Some (PFloat NaN)"
    show "time_inv ta"
      using i
    proof (rule Timer_init_inv)
      show "\<And>src. kw_timer kw = Some src \<Longrightarrow> time_inv src"
        using s by simp
      show "kw_timer kw = None \<Longrightarrow> kw_seconds kw \<noteq> Some (PFloat NaN)"
        using k by simp
    qed
  qed
  have 2: "time pkg reading t = Inr (tb, r) \<and> nonnegative_readings reading
      \<longrightarrow> time_inv tb \<and> r = seconds tb"
    using time_inv_time by blast
  have 3: "add pkg env a (OTimer b) = Inr tc \<and> time_inv a \<and> time_inv b \<longrightarrow> time_inv tc"
    using add_inv by blast
  have 4: "sub pkg env a (OTimer b) = Inr td \<and> time_inv a \<and> time_inv b \<and>
    \<not> (seconds a = PosInf \<and> seconds b = PosInf) \<longrightarrow> time_inv td"
    using sub_inv [of pkg env a b td] by blast
  have 5: "\<exists>te. clear pkg t = Inr te \<and> time_inv te"
    by (simp add: clear_eq time_inv_def fle_def feq_def)
  have 6: "reset pkg env t = Inr tf \<longrightarrow> time_inv tf"
    using reset_inv by blast
  have 7: "clock_name_setter pkg env has_attr n t = Inr tg \<and> time_inv t \<longrightarrow> time_inv tg"
    using clock_name_setter_inv by blast
  have 8: "getitem pkg (CLOCKS env) (PStr (DEFAULT_CLOCK_NAME env)) = Inr f \<and>
    nonnegative v \<and> py_float v = Inr x
      \<longrightarrow> (\<exists>th. Timer_init pkg env (PStr l)
                  \<lparr>kw_seconds = Some v, kw_clock_name = None, kw_timer = None\<rparr> = Inr th \<and>
                seconds th = x \<and> minutes th = fdiv60 x \<and> time_inv th)"
  proof (intro impI, elim conjE)
    assume g: "getitem pkg (CLOCKS env) (PStr (DEFAULT_CLOCK_NAME env)) = Inr f"
      and v: "nonnegative v" and x: "py_float v = Inr x"
    have "is_number v" and "\<not> negative v"
      using nonnegative_not_negative [OF v] by simp_all
    from init_default_clock [OF g this x, of l] show "\<exists>th. Timer_init pkg env (PStr l)
                  \<lparr>kw_seconds = Some v, kw_clock_name = None, kw_timer = None\<rparr> = Inr th \<and>
                seconds th = x \<and> minutes th = fdiv60 x \<and> time_inv th"
      using nonnegative_float [OF v x] by (simp add: time_inv_I)
  qed
  have 9: "negative v
      \<longrightarrow> Timer_init pkg env (PStr l)
            \<lparr>kw_seconds = Some v, kw_clock_name = c, kw_timer = None\<rparr> = Inl ValueError"
    using init_negative by blast
  have 10: "float_limit \<le> real_of_int i
      \<longrightarrow> Timer_init pkg env (PStr l)
            \<lparr>kw_seconds = Some (PInt i), kw_clock_name = c, kw_timer = None\<rparr>
          = Inl OverflowError"
    using init_overflow by blast
  have 11: "getitem pkg (CLOCKS env) (PStr (DEFAULT_CLOCK_NAME env)) = Inr f
      \<longrightarrow> (\<exists>tn. Timer_init pkg env (PStr l)
                  \<lparr>kw_seconds = Some (PFloat NaN), kw_clock_name = None, kw_timer = None\<rparr>
                 = Inr tn \<and> seconds tn = NaN \<and> minutes tn = NaN \<and> \<not> time_inv tn)"
    by (simp add: init_nan time_inv_def fle_def feq_def)
  show ?thesis
    by (intro conjI) (rule 1 2 3 4 5 6 7 8 9 10 11)+
qed

text \<open>
  Instances, in \<^verbatim>\<open>smarttimer\<close>: 120 seconds are 2 minutes; -1 second is refused; a reading
  of 7 seconds is recorded; \<open>10\<^sup>4\<^sup>0\<^sup>0\<close> seconds overflow.
\<close>

theorem time_invariant_witness:
  "(\<exists>t. Timer_init Smarttimer initial_env (PStr ''a'')
          \<lparr>kw_seconds = Some (PInt 120), kw_clock_name = None, kw_timer = None\<rparr> = Inr t \<and>
        seconds t = Fin 120 \<and> minutes t = Fin 2 \<and> time_inv t) \<and>
   Timer_init Smarttimer initial_env (PStr ''a'')
     \<lparr>kw_seconds = Some (PFloat (Fin (- 1))), kw_clock_name = None, kw_timer = None\<rparr>
     = Inl ValueError \<and>
   nonnegative_readings (\<lambda>f. PFloat (Fin 7)) \<and>
   time Smarttimer (\<lambda>f. PFloat (Fin 7)) (example_timer ''a'' 120 ''perf_counter'' 0)
     = Inr (example_timer ''a'' 7 ''perf_counter'' 0, Fin 7) \<and>
   time_inv (example_timer ''a'' 7 ''perf_counter'' 0) \<and>
   Timer_init Smarttimer initial_env (PStr ''a'')
     \<lparr>kw_seconds = Some (PInt (10 ^ 400)), kw_clock_name = None, kw_timer = None\<rparr>
     = Inl OverflowError"
proof -
  have g: "getitem Smarttimer (CLOCKS initial_env) (PStr (DEFAULT_CLOCK_NAME initial_env))
             = Inr (PFunc 0)"
    by (simp add: initial_env_def getitem_initial)
  have n: "nonnegative_readings (\<lambda>f. PFloat (Fin 7))"
    by (simp add: nonnegative_readings_def fle_def feq_def)
  have t: "time Smarttimer (\<lambda>f. PFloat (Fin 7)) (example_timer ''a'' 120 ''perf_counter'' 0)
     = Inr (example_timer ''a'' 7 ''perf_counter'' 0, Fin 7)"
    by (simp add: time_def example_timer_def set_time_def set_time_smarttimer_def)
  have x: "nonnegative (PInt 120) \<and> py_float (PInt 120) = Inr (Fin 120)"
    using float_limit_large by simp
  have y: "negative (PFloat (Fin (- 1)))"
    by simp
  have z: "float_limit \<le> real_of_int (10 ^ 400)"
    by (simp add: float_limit_def)
  have a: "\<exists>t. Timer_init Smarttimer initial_env (PStr ''a'')
          \<lparr>kw_seconds = Some (PInt 120), kw_clock_name = None, kw_timer = None\<rparr> = Inr t \<and>
        seconds t = Fin 120 \<and> minutes t = Fin 2 \<and> time_inv t"
  proof -
    have "getitem Smarttimer (CLOCKS initial_env) (PStr (DEFAULT_CLOCK_NAME initial_env))
            = Inr (PFunc 0) \<and>
          nonnegative (PInt 120) \<and> py_float (PInt 120) = Inr (Fin 120)
        \<longrightarrow> (\<exists>th. Timer_init Smarttimer initial_env (PStr ''a'')
                    \<lparr>kw_seconds = Some (PInt 120), kw_clock_name = None, kw_timer = None\<rparr>
                   = Inr th \<and>
                  seconds th = Fin 120 \<and> minutes th = fdiv60 (Fin 120) \<and> time_inv th)"
      using time_invariant [where pkg = Smarttimer and env = initial_env and f = "PFunc 0"
          and v = "PInt 120" and x = "Fin 120" and l = "''a''",
          THEN conjunct2, THEN conjunct2, THEN conjunct2, THEN conjunct2, THEN conjunct2,
          THEN conjunct2, THEN conjunct2, THEN conjunct1] .
    then have "\<exists>th. Timer_init Smarttimer initial_env (PStr ''a'')
                    \<lparr>kw_seconds = Some (PInt 120), kw_clock_name = None, kw_timer = None\<rparr>
                   = Inr th \<and>
                  seconds th = Fin 120 \<and> minutes th = fdiv60 (Fin 120) \<and> time_inv th"
      using g x by blast
    then show ?thesis
      by simp
  qed
  have b: "Timer_init Smarttimer initial_env (PStr ''a'')
     \<lparr>kw_seconds = Some (PFloat (Fin (- 1))), kw_clock_name = None, kw_timer = None\<rparr>
     = Inl ValueError"
    using time_invariant [where pkg = Smarttimer and env = initial_env
        and v = "PFloat (Fin (- 1))" and l = "''a''" and c = None] y
    by simp
  have c: "time_inv (example_timer ''a'' 7 ''perf_counter'' 0)"
    using time_invariant [where pkg = Smarttimer and reading = "\<lambda>f. PFloat (Fin 7)"
        and t = "example_timer ''a'' 120 ''perf_counter'' 0"
        and tb = "example_timer ''a'' 7 ''perf_counter'' 0" and r = "Fin 7"] t n
    by simp
  have d: "Timer_init Smarttimer initial_env (PStr ''a'')
     \<lparr>kw_seconds = Some (PInt (10 ^ 400)), kw_clock_name = None, kw_timer = None\<rparr>
     = Inl OverflowError"
  proof -
    have "float_limit \<le> real_of_int (10 ^ 400)
        \<longrightarrow> Timer_init Smarttimer initial_env (PStr ''a'')
              \<lparr>kw_seconds = Some (PInt (10 ^ 400)), kw_clock_name = None, kw_timer = None\<rparr>
            = Inl OverflowError"
      using time_invariant [where pkg = Smarttimer and env = initial_env
          and i = "10 ^ 400" and l = "''a''" and c = None,
          THEN conjunct2, THEN conjunct2, THEN conjunct2, THEN conjunct2, THEN conjunct2,
          THEN conjunct2, THEN conjunct2, THEN conjunct2, THEN conjunct2, THEN conjunct1] .
    then show ?thesis
      using z by blast
  qed
  show ?thesis
    by (intro conjI) (rule a b n t c d)+
qed

text \<open>
  Against claim C6 as stated: in both packages \<^verbatim>\<open>Timer("a", seconds=float("nan"))\<close>
  returns an instance whose seconds and minutes are NaN, so \<open>seconds \<ge> 0\<close> is false of
  it; \<^verbatim>\<open>Timer("a", seconds=10**400)\<close>, with seconds that are not negative, raises an
  \<open>OverflowError\<close>; and the difference of two timers with infinite seconds has NaN
  seconds.
\<close>

theorem time_invariant_nan_counterexample:
  "Timer_init Smarttimers initial_env (PStr ''a'')
     \<lparr>kw_seconds = Some (PFloat NaN), kw_clock_name = None, kw_timer = None\<rparr>
     = Inr \<lparr>label = ''a'', seconds = NaN, minutes = NaN,
            clock_name = ''perf_counter'', clock = PFunc 0\<rparr> \<and>
   Timer_init Smarttimer initial_env (PStr ''a'')
     \<lparr>kw_seconds = Some (PFloat NaN), kw_clock_name = None, kw_timer = None\<rparr>
     = Inr \<lparr>label = ''a'', seconds = NaN, minutes = NaN,
            clock_name = ''perf_counter'', clock = PFunc 0\<rparr> \<and>
   \<not> time_inv \<lparr>label = ''a'', seconds = NaN, minutes = NaN,
               clock_name = ''perf_counter'', clock = PFunc 0\<rparr> \<and>
   \<not> fle (Fin 0) NaN \<and>
   Timer_init Smarttimers initial_env (PStr ''a'')
     \<lparr>kw_seconds = Some (PInt (10 ^ 400)), kw_clock_name = None, kw_timer = None\<rparr>
     = Inl OverflowError \<and>
   sub Smarttimers initial_env
     \<lparr>label = ''a'', seconds = PosInf, minutes = PosInf,
      clock_name = ''perf_counter'', clock = PFunc 0\<rparr>
     (OTimer \<lparr>label = ''b'', seconds = PosInf, minutes = PosInf,
              clock_name = ''perf_counter'', clock = PFunc 0\<rparr>)
     = Inr \<lparr>label = ''a-b'', seconds = NaN, minutes = NaN,
            clock_name = ''perf_counter'', clock = PFunc 0\<rparr>"
proof -
  have g: "\<And>pkg. getitem pkg (CLOCKS initial_env) (PStr (DEFAULT_CLOCK_NAME initial_env))
             = Inr (PFunc 0)"
    by (simp add: initial_env_def getitem_initial)
  have d: "DEFAULT_CLOCK_NAME initial_env = ''perf_counter''"
    by (simp add: initial_env_def)
  have 1: "Timer_init Smarttimers initial_env (PStr ''a'')
     \<lparr>kw_seconds = Some (PFloat NaN), kw_clock_name = None, kw_timer = None\<rparr>
     = Inr \<lparr>label = ''a'', seconds = NaN, minutes = NaN,
            clock_name = ''perf_counter'', clock = PFunc 0\<rparr>"
    using init_nan [OF g, of Smarttimers "''a''"] by (simp add: d)
  have 2: "Timer_init Smarttimer initial_env (PStr ''a'')
     \<lparr>kw_seconds = Some (PFloat NaN), kw_clock_name = None, kw_timer = None\<rparr>
     = Inr \<lparr>label = ''a'', seconds = NaN, minutes = NaN,
            clock_name = ''perf_counter'', clock = PFunc 0\<rparr>"
    using init_nan [OF g, of Smarttimer "''a''"] by (simp add: d)
  have 3: "\<not> time_inv \<lparr>label = ''a'', seconds = NaN, minutes = NaN,
               clock_name = ''perf_counter'', clock = PFunc 0\<rparr>"
    by (simp add: time_inv_def fle_def feq_def)
  have 4: "\<not> fle (Fin 0) NaN"
    by (simp add: fle_def feq_def)
  have z: "float_limit \<le> real_of_int (10 ^ 400)"
    by (simp add: float_limit_def)
  have 5: "Timer_init Smarttimers initial_env (PStr ''a'')
     \<lparr>kw_seconds = Some (PInt (10 ^ 400)), kw_clock_name = None, kw_timer = None\<rparr>
     = Inl OverflowError"
    using init_overflow [OF z] by blast
  have 6: "sub Smarttimers initial_env
     \<lparr>label = ''a'', seconds = PosInf, minutes = PosInf,
      clock_name = ''perf_counter'', clock = PFunc 0\<rparr>
     (OTimer \<lparr>label = ''b'', seconds = PosInf, minutes = PosInf,
              clock_name = ''perf_counter'', clock = PFunc 0\<rparr>)
     = Inr \<lparr>label = ''a-b'', seconds = NaN, minutes = NaN,
            clock_name = ''perf_counter'', clock = PFunc 0\<rparr>"
    by (simp add: sub_def is_compatible_def initial_env_def example_clock_info_def
        getitem_initial fsub_def join_two Timer_init_def init_smarttimers_def label_setter_def
        set_time_smarttimers_def clock_name_setter_def new_object_def)
  show ?thesis
    by (intro conjI) (rule 1 2 3 4 5 6)+
qed

text \<open>
  The setter of \<^verbatim>\<open>clock_name\<close>, on an instance that already has a clock name, zeroes the
  time whatever the new name is: it asks \<^verbatim>\<open>is_compatible\<close> about the name, a string, and
  \<^verbatim>\<open>is_compatible\<close> answers false for every value that is not a \<^verbatim>\<open>Timer\<close>.
\<close>

lemma clock_name_setter_clears:
  "clock_name_setter pkg env True (PStr n) t = Inr t' \<Longrightarrow> seconds t' = Fin 0 \<and> minutes t' = Fin 0"
  by (auto simp: clock_name_setter_def is_compatible_OValue clear_eq Let_def split: sum.splits)

text \<open>
  Claim C3, the code at the failing input: 5 seconds on \<^verbatim>\<open>perf_counter\<close>, and the clock name
  set to \<^verbatim>\<open>perf_counter\<close> again. The claim has the seconds unchanged; the code, in both
  packages, leaves 0.
\<close>

theorem clock_name_setter_same_name_clears:
  "clock_name_setter Smarttimers initial_env True (PStr ''perf_counter'')
     (example_timer ''a'' 5 ''perf_counter'' 0) = Inr (example_timer ''a'' 0 ''perf_counter'' 0) \<and>
   clock_name_setter Smarttimer initial_env True (PStr ''perf_counter'')
     (example_timer ''a'' 5 ''perf_counter'' 0) = Inr (example_timer ''a'' 0 ''perf_counter'' 0)"
  by (simp add: clock_name_setter_def is_compatible_OValue clear_eq initial_env_def
      getitem_initial example_timer_def)

text \<open>
  The registry's invariant under the mutations of \<^verbatim>\<open>smarttimers\<close>, and the weaker one (the
  key may be empty) under those of \<^verbatim>\<open>smarttimer\<close>.
\<close>

lemma setitem_smarttimers_inv:
  "registry_inv d \<Longrightarrow> registry_inv (snd (setitem_smarttimers d k v))"
  by (auto simp: setitem_smarttimers_def registry_inv_def valid_entry_def
      intro!: list_all_update)

lemma update_items_inv:
  "registry_inv d \<Longrightarrow> registry_inv (snd (update_items d kvs))"
proof (induction kvs arbitrary: d)
  case Nil
  then show ?case by simp
next
  case (Cons kv kvs)
  obtain k v where kv: "kv = (k, v)" by (cases kv)
  have i: "registry_inv (snd (setitem_smarttimers d k v))"
    using Cons.prems by (rule setitem_smarttimers_inv)
  show ?case
  proof (cases "setitem_smarttimers d k v")
    case (Pair e d')
    then show ?thesis
      using i kv Cons.IH [of d'] by (cases e) auto
  qed
qed

lemma update_smarttimers_inv:
  "registry_inv d \<Longrightarrow> registry_inv (snd (update_smarttimers d arg))"
  by (cases arg) (auto simp: update_smarttimers_def update_items_inv)

lemma unregister_clock_inv:
  "registry_inv d \<Longrightarrow> registry_inv (snd (unregister_clock pkg d k))"
  by (auto simp: unregister_clock_def registry_inv_def split: sum.splits
      intro: list_all_delete)

lemma setitem_smarttimer_weak_inv:
  "weak_registry_inv d \<Longrightarrow> weak_registry_inv (snd (setitem_smarttimer d k v))"
  by (auto simp: setitem_smarttimer_def weak_registry_inv_def weak_entry_def
      intro!: list_all_update)

lemma unregister_clock_weak_inv:
  "weak_registry_inv d \<Longrightarrow> weak_registry_inv (snd (unregister_clock pkg d k))"
  by (auto simp: unregister_clock_def weak_registry_inv_def split: sum.splits
      intro: list_all_delete)

lemma map_of_update_other:
  "k' \<noteq> k \<Longrightarrow> map_of (AList.update k v d) k' = map_of d k'"
  by (simp add: AList.update_conv')

text \<open>
  Claim C5, as amended. In \<^verbatim>\<open>smarttimers\<close> item assignment, \<^verbatim>\<open>register_clock\<close>, \<^verbatim>\<open>update\<close>
  and \<^verbatim>\<open>unregister_clock\<close> keep every key a non-empty string and every value callable; an
  assignment with a key that is not a string, with the empty string or with a value that
  is not callable fails and leaves the registry as it was. In \<^verbatim>\<open>smarttimer\<close> item
  assignment, \<^verbatim>\<open>register_clock\<close> and \<^verbatim>\<open>unregister_clock\<close> keep every key a string and every
  value callable, and an assignment fails for a key that is not a string or a value that
  is not callable. In both, an assignment that succeeds stores the value under the key,
  in place of the entry the key had, and changes no other key.
\<close>

theorem registry_invariant:
  "(registry_inv d \<longrightarrow>
      registry_inv (snd (setitem_smarttimers d k v)) \<and>
      registry_inv (snd (register_clock Smarttimers d k v)) \<and>
      registry_inv (snd (update_smarttimers d arg)) \<and>
      registry_inv (snd (unregister_clock Smarttimers d k))) \<and>
   (\<not> (is_str k \<and> k \<noteq> PStr [] \<and> callable v) \<longrightarrow>
      fst (setitem_smarttimers d k v) \<noteq> None \<and> snd (setitem_smarttimers d k v) = d) \<and>
   (is_str k \<and> k \<noteq> PStr [] \<and> callable v \<longrightarrow>
      setitem_smarttimers d k v = (None, AList.update k v d)) \<and>
   (weak_registry_inv d \<longrightarrow>
      weak_registry_inv (snd (setitem_smarttimer d k v)) \<and>
      weak_registry_inv (snd (register_clock Smarttimer d k v)) \<and>
      weak_registry_inv (snd (unregister_clock Smarttimer d k))) \<and>
   (\<not> (is_str k \<and> callable v) \<longrightarrow>
      fst (setitem_smarttimer d k v) \<noteq> None \<and> snd (setitem_smarttimer d k v) = d) \<and>
   (is_str k \<and> callable v \<longrightarrow>
      setitem_smarttimer d k v = (None, AList.update k v d)) \<and>
   map_of (AList.update k v d) k = Some v \<and>
   (\<forall>k'. k' \<noteq> k \<longrightarrow> map_of (AList.update k v d) k' = map_of d k') \<and>
   (distinct (map fst d) \<longrightarrow> distinct (map fst (AList.update k v d)))"
proof -
  have 1: "registry_inv d \<longrightarrow>
      registry_inv (snd (setitem_smarttimers d k v)) \<and>
      registry_inv (snd (register_clock Smarttimers d k v)) \<and>
      registry_inv (snd (update_smarttimers d arg)) \<and>
      registry_inv (snd (unregister_clock Smarttimers d k))"
    by (simp add: setitem_smarttimers_inv update_smarttimers_inv unregister_clock_inv
        register_clock_def setitem_def)
  have 2: "\<not> (is_str k \<and> k \<noteq> PStr [] \<and> callable v) \<longrightarrow>
      fst (setitem_smarttimers d k v) \<noteq> None \<and> snd (setitem_smarttimers d k v) = d"
    by (auto simp: setitem_smarttimers_def)
  have 3: "is_str k \<and> k \<noteq> PStr [] \<and> callable v \<longrightarrow>
      setitem_smarttimers d k v = (None, AList.update k v d)"
    by (simp add: setitem_smarttimers_def)
  have 4: "weak_registry_inv d \<longrightarrow>
      weak_registry_inv (snd (setitem_smarttimer d k v)) \<and>
      weak_registry_inv (snd (register_clock Smarttimer d k v)) \<and>
      weak_registry_inv (snd (unregister_clock Smarttimer d k))"
    by (simp add: setitem_smarttimer_weak_inv unregister_clock_weak_inv
        register_clock_def setitem_def)
  have 5: "\<not> (is_str k \<and> callable v) \<longrightarrow>
      fst (setitem_smarttimer d k v) \<noteq> None \<and> snd (setitem_smarttimer d k v) = d"
    by (auto simp: setitem_smarttimer_def)
  have 6: "is_str k \<and> callable v \<longrightarrow>
      setitem_smarttimer d k v = (None, AList.update k v d)"
    by (simp add: setitem_smarttimer_def)
  have 7: "map_of (AList.update k v d) k = Some v"
    by (simp add: AList.update_conv')
  have 8: "\<forall>k'. k' \<noteq> k \<longrightarrow> map_of (AList.update k v d) k' = map_of d k'"
    by (simp add: map_of_update_other)
  have 9: "distinct (map fst d) \<longrightarrow> distinct (map fst (AList.update k v d))"
    by (simp add: AList.distinct_update)
  show ?thesis
    by (intro conjI) (rule 1 2 3 4 5 6 7 8 9)+
qed

text \<open>
  Instances: the registry of the source has the invariant; registering another function
  as \<^verbatim>\<open>clock\<close> replaces the entry in its place; the empty key, a key that is a number and
  a value that is a number are refused.
\<close>

theorem registry_invariant_witness:
  "registry_inv initial_CLOCKS \<and>
   registry_inv (snd (setitem_smarttimers initial_CLOCKS (PStr ''clock'') (PFunc 9))) \<and>
   setitem_smarttimers initial_CLOCKS (PStr ''clock'') (PFunc 9) =
     (None, [(PStr ''perf_counter'', PFunc 0), (PStr ''process_time'', PFunc 1),
             (PStr ''clock'', PFunc 9), (PStr ''monotonic'', PFunc 3),
             (PStr ''time'', PFunc 4)]) \<and>
   setitem_smarttimers initial_CLOCKS (PStr []) (PFunc 9) = (Some KeyError, initial_CLOCKS) \<and>
   setitem_smarttimers initial_CLOCKS (PInt 1) (PFunc 9) = (Some KeyError, initial_CLOCKS) \<and>
   setitem_smarttimers initial_CLOCKS (PStr ''x'') (PInt 9) = (Some ValueError, initial_CLOCKS)"
proof -
  have i: "registry_inv initial_CLOCKS"
    by (simp add: registry_inv_def valid_entry_def initial_CLOCKS_def)
  have h: "is_str (PStr ''clock'') \<and> PStr ''clock'' \<noteq> PStr [] \<and> callable (PFunc 9)"
    by simp
  have a: "registry_inv (snd (setitem_smarttimers initial_CLOCKS (PStr ''clock'') (PFunc 9)))"
    using registry_invariant [of initial_CLOCKS "PStr ''clock''" "PFunc 9"] i by blast
  have b: "setitem_smarttimers initial_CLOCKS (PStr ''clock'') (PFunc 9)
      = (None, AList.update (PStr ''clock'') (PFunc 9) initial_CLOCKS)"
    using registry_invariant [of initial_CLOCKS "PStr ''clock''" "PFunc 9"] h by blast
  show ?thesis
    using i a b
    by (simp add: initial_CLOCKS_def setitem_smarttimers_def)
qed

text \<open>
  Claim C5 as stated fails for \<^verbatim>\<open>smarttimer\<close>: its \<^verbatim>\<open>__setitem__\<close> accepts the empty string
  as a key, and so does \<^verbatim>\<open>register_clock\<close>.
\<close>

theorem empty_key_counterexample:
  "registry_inv initial_CLOCKS \<and>
   fst (setitem Smarttimer initial_CLOCKS (PStr []) (PFunc 9)) = None \<and>
   \<not> registry_inv (snd (setitem Smarttimer initial_CLOCKS (PStr []) (PFunc 9))) \<and>
   fst (register_clock Smarttimer initial_CLOCKS (PStr []) (PFunc 9)) = None"
  by (simp add: registry_inv_def valid_entry_def initial_CLOCKS_def setitem_def
      setitem_smarttimer_def register_clock_def)

text \<open>
  \<^verbatim>\<open>update\<close> of \<^verbatim>\<open>smarttimer\<close> stores its items without any check.
\<close>

lemma update_smarttimer_unchecked:
  "update_smarttimer initial_CLOCKS (ADict [(PInt 1, PNone)]) =
     (None, initial_CLOCKS @ [(PInt 1, PNone)])"
  by (simp add: update_smarttimer_def initial_CLOCKS_def)

section \<open>Properties of the tracker\<close>

text \<open>The stack and the records of a list of intervals, and the closing of one of them.\<close>

lemma pending_of_append: "pending_of (xs @ ys) = pending_of xs @ pending_of ys"
  by (induction xs rule: pending_of.induct) simp_all

lemma closed_of_append: "closed_of (xs @ ys) = closed_of xs @ closed_of ys"
  by (induction xs rule: closed_of.induct) simp_all

lemma pending_of_rev: "pending_of (rev xs) = rev (pending_of xs)"
  by (induction xs rule: pending_of.induct) (simp_all add: pending_of_append)

lemma closed_of_rev: "closed_of (rev xs) = rev (closed_of xs)"
  by (induction xs rule: closed_of.induct) (simp_all add: closed_of_append)

lemma close_first_None:
  "(close_first P now xs = None) = (\<forall>p \<in> set (pending_of xs). \<not> P (fst p))"
  by (induction xs rule: pending_of.induct) auto

text \<open>
  A close takes one interval from the stack, the first of its kind, and puts its record
  among the records: every record there was is kept, in its place.
\<close>

lemma close_first_Some:
  assumes "close_first P now xs = Some ys"
  shows "\<exists>ps l t qs cs ds. pending_of xs = ps @ (l, t) # qs \<and> P l \<and>
           (\<forall>p \<in> set ps. \<not> P (fst p)) \<and> pending_of ys = ps @ qs \<and>
           closed_of xs = cs @ ds \<and> closed_of ys = cs @ interval l t now # ds"
  using assms
proof (induction xs arbitrary: ys rule: pending_of.induct)
  case 1
  then show ?case by simp
next
  case (2 l t xs)
  show ?case
  proof (cases "P l")
    case True
    then have "ys = Closed (interval l t now) # xs"
      using "2.prems" by simp
    then have "pending_of (Pending l t # xs) = [] @ (l, t) # pending_of xs \<and> P l \<and>
        (\<forall>p \<in> set []. \<not> P (fst p)) \<and> pending_of ys = [] @ pending_of xs \<and>
        closed_of (Pending l t # xs) = [] @ closed_of xs \<and>
        closed_of ys = [] @ interval l t now # closed_of xs"
      using True by simp
    then show ?thesis by blast
  next
    case False
    then obtain zs where zs: "close_first P now xs = Some zs" and ys: "ys = Pending l t # zs"
      using "2.prems" by auto
    from "2.IH" [OF zs] obtain ps l' t' qs cs ds where
      h: "pending_of xs = ps @ (l', t') # qs" "P l'" "\<forall>p \<in> set ps. \<not> P (fst p)"
         "pending_of zs = ps @ qs" "closed_of xs = cs @ ds"
         "closed_of zs = cs @ interval l' t' now # ds"
      by blast
    have "pending_of (Pending l t # xs) = ((l, t) # ps) @ (l', t') # qs \<and> P l' \<and>
        (\<forall>p \<in> set ((l, t) # ps). \<not> P (fst p)) \<and> pending_of ys = ((l, t) # ps) @ qs \<and>
        closed_of (Pending l t # xs) = cs @ ds \<and>
        closed_of ys = cs @ interval l' t' now # ds"
      using h False ys by simp
    then show ?thesis by blast
  qed
next
  case (3 r xs)
  then obtain zs where zs: "close_first P now xs = Some zs" and ys: "ys = Closed r # zs"
    by auto
  from "3.IH" [OF zs] obtain ps l' t' qs cs ds where
    h: "pending_of xs = ps @ (l', t') # qs" "P l'" "\<forall>p \<in> set ps. \<not> P (fst p)"
       "pending_of zs = ps @ qs" "closed_of xs = cs @ ds"
       "closed_of zs = cs @ interval l' t' now # ds"
    by blast
  have "pending_of (Closed r # xs) = ps @ (l', t') # qs \<and> P l' \<and>
      (\<forall>p \<in> set ps. \<not> P (fst p)) \<and> pending_of ys = ps @ qs \<and>
      closed_of (Closed r # xs) = (r # cs) @ ds \<and>
      closed_of ys = (r # cs) @ interval l' t' now # ds"
    using h ys by simp
  then show ?case by blast
qed

lemma close_last_None:
  "(close_last P now xs = None) = (\<forall>p \<in> set (pending_of xs). \<not> P (fst p))"
  by (simp add: close_last_def close_first_None pending_of_rev)

lemma close_last_Some:
  assumes "close_last P now xs = Some ys"
  shows "\<exists>ps l t qs cs ds. pending_of xs = ps @ (l, t) # qs \<and> P l \<and>
           (\<forall>p \<in> set qs. \<not> P (fst p)) \<and> pending_of ys = ps @ qs \<and>
           closed_of xs = cs @ ds \<and> closed_of ys = cs @ interval l t now # ds"
proof -
  obtain zs where zs: "close_first P now (rev xs) = Some zs" and ys: "ys = rev zs"
    using assms by (auto simp: close_last_def)
  from close_first_Some [OF zs] obtain ps l t qs cs ds where
    h: "pending_of (rev xs) = ps @ (l, t) # qs" "P l" "\<forall>p \<in> set ps. \<not> P (fst p)"
       "pending_of zs = ps @ qs" "closed_of (rev xs) = cs @ ds"
       "closed_of zs = cs @ interval l t now # ds"
    by blast
  have "rev (rev (pending_of xs)) = rev (ps @ (l, t) # qs)"
    using h(1) by (simp add: pending_of_rev)
  then have 1: "pending_of xs = rev qs @ (l, t) # rev ps"
    by simp
  have 2: "pending_of ys = rev qs @ rev ps"
    using h(4) ys by (simp add: pending_of_rev)
  have "rev (rev (closed_of xs)) = rev (cs @ ds)"
    using h(5) by (simp add: closed_of_rev)
  then have 3: "closed_of xs = rev ds @ rev cs"
    by simp
  have 4: "closed_of ys = rev ds @ interval l t now # rev cs"
    using h(6) ys by (simp add: closed_of_rev)
  have "pending_of xs = rev qs @ (l, t) # rev ps \<and> P l \<and>
      (\<forall>p \<in> set (rev ps). \<not> P (fst p)) \<and> pending_of ys = rev qs @ rev ps \<and>
      closed_of xs = rev ds @ rev cs \<and> closed_of ys = rev ds @ interval l t now # rev cs"
    using 1 2 3 4 h(2) h(3) by simp
  then show ?thesis by blast
qed

subsection \<open>The tests of the repository, on the model\<close>

text \<open>
  The assertions of \<^verbatim>\<open>tests/test_SmartTimerInstanceMethods.py\<close> that the model of the
  tracker was fitted to hold on it, for all clock readings \<open>t0\<close>, \<open>t1\<close>, \<open>t2\<close>, \<open>t3\<close>.
\<close>

lemma test_ActiveCompletedTimes:
  "length (active_labels (tic ''A'' t0 (new_tracker DEFAULT_NAME c))) = 1 \<and>
   length (labels (tic ''A'' t0 (new_tracker DEFAULT_NAME c))) = 1 \<and>
   (\<exists>s. run [Open ''A'' t0, Close PNone t1] (new_tracker DEFAULT_NAME c) = Inr s \<and>
        length (active_labels s) = 0 \<and> length (labels s) = 1 \<and>
        length (active_labels (tic ''B'' t2 s)) = 1 \<and> length (labels (tic ''B'' t2 s)) = 2)"
  by (simp add: new_tracker_def tic_def toc_def pending_def close_last_def labels_def
      active_labels_def pending_of_append)

lemma test_ConsecutiveScheme:
  "\<exists>s. run [Open ''A'' t0, Close PNone t1, Open ''B'' t2, Close PNone t3]
          (new_tracker DEFAULT_NAME c) = Inr s \<and>
       length (labels s) = 2 \<and> length (active_labels s) = 0 \<and>
       length (tracker_seconds s) = 2 \<and>
       tracker_seconds s = [t1 - t0, t3 - t2]"
  by (simp add: new_tracker_def tic_def toc_def pending_def close_last_def labels_def
      active_labels_def tracker_seconds_def closed_records_def interval_def)

lemma test_CascadeScheme:
  "\<exists>s. run [Open ''A'' t0, Close PNone t1, Close (PStr ''B'') t2]
          (new_tracker DEFAULT_NAME c) = Inr s \<and>
       labels s = [''A'', ''B''] \<and> length (active_labels s) = 0 \<and>
       tracker_seconds s = [t1 - t0, t2 - t1]"
  by (simp add: new_tracker_def tic_def toc_def pending_def close_last_def labels_def
      active_labels_def tracker_seconds_def closed_records_def interval_def)

lemma test_NestedScheme:
  "\<exists>s. run [Open ''A'' t0, Open ''B'' t1, Close PNone t2, Close PNone t3]
          (new_tracker DEFAULT_NAME c) = Inr s \<and>
       labels s = [''A'', ''B''] \<and> length (active_labels s) = 0 \<and>
       tracker_seconds s = [t3 - t0, t2 - t1]"
  by (simp add: new_tracker_def tic_def toc_def pending_def close_last_def labels_def
      active_labels_def tracker_seconds_def closed_records_def interval_def)

lemma test_LabelPairedScheme:
  "\<exists>s. run [Open ''A'' t0, Open ''B'' t1, Close (PStr ''A'') t2, Close (PStr ''B'') t3]
          (new_tracker DEFAULT_NAME c) = Inr s \<and>
       labels s = [''A'', ''B''] \<and> length (active_labels s) = 0 \<and>
       length (tracker_seconds s) = 2"
  by (simp add: new_tracker_def tic_def toc_def pending_def close_last_def labels_def
      active_labels_def tracker_seconds_def closed_records_def interval_def)

lemma test_NoMatchedPair:
  "toc PNone t0 (new_tracker DEFAULT_NAME c) = Inl StateError \<and>
   toc (PStr ''B'') t1 (tic ''A'' t0 (new_tracker DEFAULT_NAME c)) = Inl KeyError"
  by (simp add: new_tracker_def tic_def toc_def pending_def close_last_def)

lemma test_InvalidTocKey:
  "toc (PInt 1) t1 (tic ''A'' t0 (new_tracker DEFAULT_NAME c)) = Inl TypeError \<and>
   toc (PFloat (Fin 1)) t1 (tic ''A'' t0 (new_tracker DEFAULT_NAME c)) = Inl TypeError \<and>
   toc (PObj k) t1 (tic ''A'' t0 (new_tracker DEFAULT_NAME c)) = Inl TypeError"
  by (simp add: toc_def)

lemma test_TimerStatsSelect:
  "\<exists>s. run [Open ''A'' t0, Close PNone t1, Close PNone t2] (new_tracker DEFAULT_NAME c) = Inr s"
  by (simp add: new_tracker_def tic_def toc_def pending_def close_last_def)

lemma test_Clear:
  "\<exists>s. run [Open ''A'' t0, Close PNone t1] (new_tracker ''atimer'' c) = Inr s \<and>
       name (tracker_clear s) = ''atimer'' \<and> labels (tracker_clear s) = [] \<and>
       active_labels (tracker_clear s) = [] \<and> tracker_seconds (tracker_clear s) = []"
  by (simp add: new_tracker_def tic_def toc_def pending_def close_last_def labels_def
      active_labels_def tracker_seconds_def closed_records_def tracker_clear_def)

lemma test_Reset:
  "\<exists>s. run [Open ''A'' t0, Close PNone t1] (new_tracker ''atimer'' c) = Inr s \<and>
       name (tracker_reset env s) = ''smarttimer'' \<and> labels (tracker_reset env s) = [] \<and>
       active_labels (tracker_reset env s) = [] \<and> tracker_seconds (tracker_reset env s) = []"
  by (simp add: new_tracker_def tic_def toc_def pending_def close_last_def labels_def
      active_labels_def tracker_seconds_def closed_records_def tracker_clear_def
      tracker_reset_def DEFAULT_NAME_def)

text \<open>
  The sum of the seconds of all records, in the nested and in the cascading scheme. It
  is the seconds of the record that \<^verbatim>\<open>test_NestedScheme\<close> and \<^verbatim>\<open>test_CascadeScheme\<close>
  compare \<^verbatim>\<open>walltime()\<close> with only when the other record has no seconds.
\<close>

lemma scheme_sums:
  "(\<exists>s. run [Open ''A'' t0, Open ''B'' t1, Close PNone t2, Close PNone t3]
          (new_tracker DEFAULT_NAME c) = Inr s \<and>
        sum_of_seconds s = tracker_seconds s ! 0 + (t2 - t1)) \<and>
   (\<exists>s. run [Open ''A'' t0, Close PNone t1, Close (PStr ''B'') t2]
          (new_tracker DEFAULT_NAME c) = Inr s \<and>
        sum_of_seconds s = tracker_seconds s ! 1 + (t1 - t0))"
  by (simp add: new_tracker_def tic_def toc_def pending_def close_last_def
      sum_of_seconds_def tracker_seconds_def closed_records_def interval_def)

text \<open>
  \<^verbatim>\<open>close\<close>, case by case.
\<close>

lemma toc_TypeError:
  "lbl \<noteq> PNone \<Longrightarrow> \<not> is_str lbl \<Longrightarrow> toc lbl now s = Inl TypeError"
  by (simp add: toc_def)

lemma toc_StateError:
  "pending s = [] \<Longrightarrow> last_close s = None \<Longrightarrow>
     toc PNone now s = Inl StateError \<and> toc (PStr l) now s = Inl KeyError"
  by (simp add: toc_def)

lemma toc_top:
  assumes "pending s \<noteq> []"
  shows "\<exists>s' cs ds. toc PNone now s = Inr s' \<and> pending s' = butlast (pending s) \<and>
           closed_records s = cs @ ds \<and>
           closed_records s' =
             cs @ interval (fst (last (pending s))) (snd (last (pending s))) now # ds"
proof -
  obtain p where p: "p \<in> set (pending_of (slots s))"
    using assms by (cases "pending_of (slots s)") (auto simp: pending_def)
  have "close_last (\<lambda>l. True) now (slots s) \<noteq> None"
  proof
    assume "close_last (\<lambda>l. True) now (slots s) = None"
    then have "\<forall>p \<in> set (pending_of (slots s)). \<not> True"
      by (simp only: close_last_None)
    with p show False by blast
  qed
  then obtain ys where ys: "close_last (\<lambda>l. True) now (slots s) = Some ys"
    by blast
  from close_last_Some [OF ys] obtain ps l t qs cs ds where
    h: "pending_of (slots s) = ps @ (l, t) # qs" "\<forall>p \<in> set qs. False"
       "pending_of ys = ps @ qs" "closed_of (slots s) = cs @ ds"
       "closed_of ys = cs @ interval l t now # ds"
    by auto
  have q: "qs = []"
    using h(2) by (cases qs) auto
  have t: "toc PNone now s = Inr (s\<lparr>slots := ys, last_close := Some now\<rparr>)"
    using assms ys by (simp add: toc_def)
  have "toc PNone now s = Inr (s\<lparr>slots := ys, last_close := Some now\<rparr>) \<and>
      pending (s\<lparr>slots := ys, last_close := Some now\<rparr>) = butlast (pending s) \<and>
      closed_records s = cs @ ds \<and>
      closed_records (s\<lparr>slots := ys, last_close := Some now\<rparr>) =
        cs @ interval (fst (last (pending s))) (snd (last (pending s))) now # ds"
    using t h q by (simp add: pending_def closed_records_def butlast_append)
  then show ?thesis by blast
qed

lemma toc_KeyError:
  assumes "pending s \<noteq> []" and "l \<notin> fst ` set (pending s)"
  shows "toc (PStr l) now s = Inl KeyError"
proof -
  have "close_last (\<lambda>x. PStr l = PNone \<or> PStr l = PStr x) now (slots s) = None"
    using assms(2) by (auto simp: close_last_None pending_def image_iff)
  then show ?thesis
    using assms(1) by (simp add: toc_def)
qed

lemma toc_label:
  assumes "l \<in> fst ` set (pending s)"
  shows "\<exists>s' ps t qs cs ds. toc (PStr l) now s = Inr s' \<and> pending s = ps @ (l, t) # qs \<and>
           l \<notin> fst ` set qs \<and> pending s' = ps @ qs \<and>
           closed_records s = cs @ ds \<and> closed_records s' = cs @ interval l t now # ds"
proof -
  have ne: "pending s \<noteq> []"
    using assms by auto
  have "close_last (\<lambda>x. PStr l = PNone \<or> PStr l = PStr x) now (slots s) \<noteq> None"
    using assms by (auto simp: close_last_None pending_def)
  then obtain ys where
    ys: "close_last (\<lambda>x. PStr l = PNone \<or> PStr l = PStr x) now (slots s) = Some ys"
    by blast
  from close_last_Some [OF ys] obtain ps l' t qs cs ds where
    h: "pending_of (slots s) = ps @ (l', t) # qs" "l = l'" "\<forall>p \<in> set qs. l \<noteq> fst p"
       "pending_of ys = ps @ qs" "closed_of (slots s) = cs @ ds"
       "closed_of ys = cs @ interval l' t now # ds"
    by auto
  have t: "toc (PStr l) now s = Inr (s\<lparr>slots := ys, last_close := Some now\<rparr>)"
    using ne ys by (simp add: toc_def)
  have "toc (PStr l) now s = Inr (s\<lparr>slots := ys, last_close := Some now\<rparr>) \<and>
      pending s = ps @ (l, t) # qs \<and> l \<notin> fst ` set qs \<and>
      pending (s\<lparr>slots := ys, last_close := Some now\<rparr>) = ps @ qs \<and>
      closed_records s = cs @ ds \<and>
      closed_records (s\<lparr>slots := ys, last_close := Some now\<rparr>) = cs @ interval l t now # ds"
    using t h by (auto simp: pending_def closed_records_def)
  then show ?thesis by blast
qed

lemma toc_cascade:
  assumes "pending s = []" and "last_close s = Some t1"
  shows "\<exists>s'. toc (PStr l) now s = Inr s' \<and> pending s' = [] \<and>
           closed_records s' = closed_records s @ [interval l t1 now]"
    and "\<exists>s'. toc PNone now s = Inr s' \<and> pending s' = [] \<and>
           closed_records s' = closed_records s @
             [interval (case last_open s of None \<Rightarrow> [] | Some l0 \<Rightarrow> l0) t1 now]"
  using assms
  by (simp_all add: toc_def pending_def closed_records_def pending_of_append closed_of_append)

lemma toc_one_record:
  assumes "toc lbl now s = Inr s'"
  shows "\<exists>cs r ds. closed_records s = cs @ ds \<and> closed_records s' = cs @ r # ds"
proof (cases "pending s = []")
  case True
  then obtain r where "closed_records s' = closed_records s @ r # []"
    using assms
    by (auto simp: toc_def closed_records_def closed_of_append
        split: if_splits option.splits)
  then have "closed_records s = closed_records s @ [] \<and>
      closed_records s' = closed_records s @ r # []"
    by simp
  then show ?thesis by blast
next
  case False
  then obtain ys where ys: "close_last (\<lambda>l. lbl = PNone \<or> lbl = PStr l) now (slots s) = Some ys"
    and s': "s' = s\<lparr>slots := ys, last_close := Some now\<rparr>"
    using assms by (auto simp: toc_def split: if_splits option.splits)
  from close_last_Some [OF ys] obtain cs r ds where
    "closed_of (slots s) = cs @ ds" "closed_of ys = cs @ r # ds"
    by blast
  then have "closed_records s = cs @ ds \<and> closed_records s' = cs @ r # ds"
    using s' by (simp add: closed_records_def)
  then show ?thesis by blast
qed

lemma toc_keeps_name:
  assumes "toc lbl now s = Inr s'"
  shows "name s' = name s \<and> tracker_clock_name s' = tracker_clock_name s \<and>
         last_open s' = last_open s \<and> last_close s' = Some now"
  using assms by (auto simp: toc_def split: if_splits option.splits)

text \<open>
  Claim C2, as amended. A label that is given and is not a string is a \<open>TypeError\<close>.
  On an empty stack before any close (a tracker as created, or cleared), \<^verbatim>\<open>close\<close> fails:
  with a \<open>StateError\<close> without label, with a \<open>KeyError\<close> with one. When the stack is not
  empty, \<^verbatim>\<open>close\<close> without label pops the top of the stack and puts the record of that
  interval, from its open to this close, among the records; with a string label it
  fails with a \<open>KeyError\<close> when the label is not on the stack, and else removes the entry
  of that label nearest the top, the other entries keeping their order, and puts the
  record of that interval among the records. On an empty stack after a close it
  succeeds (the cascading close): a record measured from the previous close is appended,
  under the label given (without label: the label of the latest open). Every close
  that succeeds adds exactly one record: the records there were are all kept, in their
  order; the name, the clock name and the label of the latest open are unchanged, and
  the reading of this close is the one the next cascading close measures from.
\<close>

theorem close_matching:
  "(lbl \<noteq> PNone \<and> \<not> is_str lbl \<longrightarrow> toc lbl now s = Inl TypeError) \<and>
   (pending s = [] \<and> last_close s = None \<longrightarrow>
      toc PNone now s = Inl StateError \<and> toc (PStr l) now s = Inl KeyError) \<and>
   (pending s \<noteq> [] \<longrightarrow>
      (\<exists>s' cs ds. toc PNone now s = Inr s' \<and> pending s' = butlast (pending s) \<and>
          closed_records s = cs @ ds \<and>
          closed_records s' =
            cs @ interval (fst (last (pending s))) (snd (last (pending s))) now # ds)) \<and>
   (pending s \<noteq> [] \<and> l \<notin> fst ` set (pending s) \<longrightarrow> toc (PStr l) now s = Inl KeyError) \<and>
   (l \<in> fst ` set (pending s) \<longrightarrow>
      (\<exists>s' ps t qs cs ds. toc (PStr l) now s = Inr s' \<and> pending s = ps @ (l, t) # qs \<and>
          l \<notin> fst ` set qs \<and> pending s' = ps @ qs \<and>
          closed_records s = cs @ ds \<and> closed_records s' = cs @ interval l t now # ds)) \<and>
   (pending s = [] \<and> last_close s = Some t1 \<longrightarrow>
      (\<exists>s'. toc (PStr l) now s = Inr s' \<and> pending s' = [] \<and>
          closed_records s' = closed_records s @ [interval l t1 now]) \<and>
      (\<exists>s'. toc PNone now s = Inr s' \<and> pending s' = [] \<and>
          closed_records s' = closed_records s @
            [interval (case last_open s of None \<Rightarrow> [] | Some l0 \<Rightarrow> l0) t1 now])) \<and>
   (toc lbl now s = Inr s1 \<longrightarrow>
      (\<exists>cs r ds. closed_records s = cs @ ds \<and> closed_records s1 = cs @ r # ds) \<and>
      name s1 = name s \<and> tracker_clock_name s1 = tracker_clock_name s \<and>
      last_open s1 = last_open s \<and> last_close s1 = Some now)"
proof -
  have 1: "lbl \<noteq> PNone \<and> \<not> is_str lbl \<longrightarrow> toc lbl now s = Inl TypeError"
    using toc_TypeError by blast
  have 2: "pending s = [] \<and> last_close s = None \<longrightarrow>
      toc PNone now s = Inl StateError \<and> toc (PStr l) now s = Inl KeyError"
    using toc_StateError by blast
  have 3: "pending s \<noteq> [] \<longrightarrow>
      (\<exists>s' cs ds. toc PNone now s = Inr s' \<and> pending s' = butlast (pending s) \<and>
          closed_records s = cs @ ds \<and>
          closed_records s' =
            cs @ interval (fst (last (pending s))) (snd (last (pending s))) now # ds)"
    using toc_top by blast
  have 4: "pending s \<noteq> [] \<and> l \<notin> fst ` set (pending s) \<longrightarrow> toc (PStr l) now s = Inl KeyError"
    using toc_KeyError by blast
  have 5: "l \<in> fst ` set (pending s) \<longrightarrow>
      (\<exists>s' ps t qs cs ds. toc (PStr l) now s = Inr s' \<and> pending s = ps @ (l, t) # qs \<and>
          l \<notin> fst ` set qs \<and> pending s' = ps @ qs \<and>
          closed_records s = cs @ ds \<and> closed_records s' = cs @ interval l t now # ds)"
    using toc_label [of l s now] by blast
  have 6: "pending s = [] \<and> last_close s = Some t1 \<longrightarrow>
      (\<exists>s'. toc (PStr l) now s = Inr s' \<and> pending s' = [] \<and>
          closed_records s' = closed_records s @ [interval l t1 now]) \<and>
      (\<exists>s'. toc PNone now s = Inr s' \<and> pending s' = [] \<and>
          closed_records s' = closed_records s @
            [interval (case last_open s of None \<Rightarrow> [] | Some l0 \<Rightarrow> l0) t1 now])"
    using toc_cascade [of s t1] by blast
  have 7: "toc lbl now s = Inr s1 \<longrightarrow>
      (\<exists>cs r ds. closed_records s = cs @ ds \<and> closed_records s1 = cs @ r # ds) \<and>
      name s1 = name s \<and> tracker_clock_name s1 = tracker_clock_name s \<and>
      last_open s1 = last_open s \<and> last_close s1 = Some now"
    using toc_one_record [of lbl now s s1] toc_keeps_name [of lbl now s s1] by blast
  show ?thesis
    by (intro conjI) (rule 1 2 3 4 5 6 7)+
qed

text \<open>
  Instances: \<^verbatim>\<open>A\<close> and \<^verbatim>\<open>B\<close> open; a tracker as created.
\<close>

theorem close_matching_witness:
  "pending (tic ''B'' 1 (tic ''A'' 0 (new_tracker ''smarttimer'' ''perf_counter'')))
     = [(''A'', 0), (''B'', 1)] \<and>
   (\<exists>s'. toc PNone 2 (tic ''B'' 1 (tic ''A'' 0 (new_tracker ''smarttimer'' ''perf_counter'')))
           = Inr s' \<and> pending s' = [(''A'', 0)] \<and>
         closed_records s' = [interval ''B'' 1 2]) \<and>
   toc (PStr ''C'') 2 (tic ''B'' 1 (tic ''A'' 0 (new_tracker ''smarttimer'' ''perf_counter'')))
     = Inl KeyError \<and>
   toc (PInt 1) 2 (tic ''B'' 1 (tic ''A'' 0 (new_tracker ''smarttimer'' ''perf_counter'')))
     = Inl TypeError \<and>
   toc PNone 2 (new_tracker ''smarttimer'' ''perf_counter'') = Inl StateError"
proof -
  have p: "pending (tic ''B'' 1 (tic ''A'' 0 (new_tracker ''smarttimer'' ''perf_counter'')))
     = [(''A'', 0), (''B'', 1)]"
    by (simp add: pending_def tic_def new_tracker_def)
  have r: "closed_records (tic ''B'' 1 (tic ''A'' 0 (new_tracker ''smarttimer'' ''perf_counter'')))
     = []"
    by (simp add: closed_records_def tic_def new_tracker_def)
  have e: "pending (new_tracker ''smarttimer'' ''perf_counter'') = [] \<and>
      last_close (new_tracker ''smarttimer'' ''perf_counter'') = None"
    by (simp add: pending_def new_tracker_def)
  have a: "\<exists>s'. toc PNone 2 (tic ''B'' 1 (tic ''A'' 0 (new_tracker ''smarttimer'' ''perf_counter'')))
           = Inr s' \<and> pending s' = [(''A'', 0)] \<and> closed_records s' = [interval ''B'' 1 2]"
    using p r close_matching [where lbl = PNone and now = 2 and l = "''C''" and
        s = "tic ''B'' 1 (tic ''A'' 0 (new_tracker ''smarttimer'' ''perf_counter''))"]
    by simp
  have b: "toc (PStr ''C'') 2 (tic ''B'' 1 (tic ''A'' 0 (new_tracker ''smarttimer'' ''perf_counter'')))
     = Inl KeyError"
    using p close_matching [where lbl = PNone and now = 2 and l = "''C''" and
        s = "tic ''B'' 1 (tic ''A'' 0 (new_tracker ''smarttimer'' ''perf_counter''))"]
    by simp
  have c: "toc (PInt 1) 2 (tic ''B'' 1 (tic ''A'' 0 (new_tracker ''smarttimer'' ''perf_counter'')))
     = Inl TypeError"
    using close_matching [where lbl = "PInt 1" and now = 2 and l = "''C''" and
        s = "tic ''B'' 1 (tic ''A'' 0 (new_tracker ''smarttimer'' ''perf_counter''))"]
    by simp
  have d: "toc PNone 2 (new_tracker ''smarttimer'' ''perf_counter'') = Inl StateError"
    using e close_matching [where lbl = PNone and now = 2 and l = "''C''" and
        s = "new_tracker ''smarttimer'' ''perf_counter''"]
    by simp
  show ?thesis
    by (intro conjI) (rule p a b c d)+
qed

text \<open>
  Claim C2 as stated fails. After \<^verbatim>\<open>tic('A'); toc()\<close> the stack is empty, and neither
  \<^verbatim>\<open>toc()\<close> fails with a \<open>StateError\<close> (\<^verbatim>\<open>test_TimerStatsSelect\<close>) nor \<^verbatim>\<open>toc('B')\<close> with a
  \<open>KeyError\<close> (\<^verbatim>\<open>test_CascadeScheme\<close>). And in the nested scheme the record of \<^verbatim>\<open>A\<close>,
  closed last, stands first (\<^verbatim>\<open>test_NestedScheme\<close>): the records are not in closing
  order.
\<close>

theorem close_on_empty_stack_counterexample:
  "(case run [Open ''A'' 0, Close PNone (1 / 2)] (new_tracker ''smarttimer'' ''perf_counter'') of
      Inl e \<Rightarrow> False
    | Inr s \<Rightarrow>
        pending s = [] \<and>
        (case toc PNone 1 s of Inl e \<Rightarrow> False | Inr s' \<Rightarrow> length (closed_records s') = 2) \<and>
        (case toc (PStr ''B'') 1 s of
           Inl e \<Rightarrow> False
         | Inr s' \<Rightarrow> map rec_label (closed_records s') = [''A'', ''B''])) \<and>
   (case run [Open ''A'' 0, Open ''B'' (1 / 2), Close PNone 1, Close PNone (3 / 2)]
           (new_tracker ''smarttimer'' ''perf_counter'') of
      Inl e \<Rightarrow> False
    | Inr s \<Rightarrow> map rec_label (closed_records s) = [''A'', ''B''])"
  by (simp add: new_tracker_def tic_def toc_def pending_def closed_records_def close_last_def
      interval_def)

text \<open>
  Claim C8, as amended. \<^verbatim>\<open>clear()\<close> of the tracker empties the closed records and the
  stack and leaves the name (and the clock name) unchanged; \<^verbatim>\<open>reset()\<close> empties them too
  and restores the default name and the default clock name. \<^verbatim>\<open>clear()\<close> of a \<^verbatim>\<open>Timer\<close>
  only zeroes seconds and minutes; \<^verbatim>\<open>reset()\<close> of a \<^verbatim>\<open>Timer\<close>, the default clock name being
  registered, also empties the label and restores the default clock name. Both packages.
\<close>

theorem clear_and_reset:
  "closed_records (tracker_clear s) = [] \<and> pending (tracker_clear s) = [] \<and>
   name (tracker_clear s) = name s \<and>
   tracker_clock_name (tracker_clear s) = tracker_clock_name s \<and>
   closed_records (tracker_reset env s) = [] \<and> pending (tracker_reset env s) = [] \<and>
   name (tracker_reset env s) = DEFAULT_NAME \<and>
   tracker_clock_name (tracker_reset env s) = DEFAULT_CLOCK_NAME env \<and>
   clear pkg t = Inr (t\<lparr>seconds := Fin 0, minutes := Fin 0\<rparr>) \<and>
   (getitem pkg (CLOCKS env) (PStr (DEFAULT_CLOCK_NAME env)) = Inr f \<longrightarrow>
      reset pkg env t = Inr \<lparr>label = [], seconds = Fin 0, minutes = Fin 0,
                             clock_name = DEFAULT_CLOCK_NAME env, clock = f\<rparr>)"
proof -
  have r: "getitem pkg (CLOCKS env) (PStr (DEFAULT_CLOCK_NAME env)) = Inr f \<longrightarrow>
      reset pkg env t = Inr \<lparr>label = [], seconds = Fin 0, minutes = Fin 0,
                             clock_name = DEFAULT_CLOCK_NAME env, clock = f\<rparr>"
    by (simp add: reset_def label_setter_def clock_name_setter_def is_compatible_OValue clear_eq)
  show ?thesis
    using r
    by (simp add: tracker_clear_def tracker_reset_def closed_records_def pending_def clear_eq)
qed

text \<open>
  An instance: a timer on \<^verbatim>\<open>time\<close>, reset and cleared.
\<close>

theorem clear_and_reset_witness:
  "getitem Smarttimers (CLOCKS initial_env) (PStr (DEFAULT_CLOCK_NAME initial_env))
     = Inr (PFunc 0) \<and>
   reset Smarttimers initial_env (example_timer ''a'' 90 ''time'' 4)
     = Inr (example_timer [] 0 ''perf_counter'' 0) \<and>
   clear Smarttimers (example_timer ''a'' 90 ''time'' 4) = Inr (example_timer ''a'' 0 ''time'' 4)"
proof -
  have g: "getitem Smarttimers (CLOCKS initial_env) (PStr (DEFAULT_CLOCK_NAME initial_env))
     = Inr (PFunc 0)"
    by (simp add: initial_env_def getitem_initial)
  show ?thesis
    using g clear_and_reset [of _ initial_env Smarttimers "example_timer ''a'' 90 ''time'' 4"
        "PFunc 0"]
    by (simp add: example_timer_def initial_env_def)
qed

text \<open>
  Claim C8 as stated fails where it has \<^verbatim>\<open>reset()\<close> leave the tracker's name unchanged:
  \<^verbatim>\<open>test_Reset\<close> creates \<^verbatim>\<open>SmartTimer('atimer')\<close> and finds the name \<^verbatim>\<open>'smarttimer'\<close>
  after \<^verbatim>\<open>reset()\<close>.
\<close>

theorem reset_name_counterexample:
  "(case run [Open ''A'' 0, Close PNone 1] (new_tracker ''atimer'' ''perf_counter'') of
      Inl e \<Rightarrow> False
    | Inr s \<Rightarrow>
        name s = ''atimer'' \<and> name (tracker_clear s) = ''atimer'' \<and>
        name (tracker_reset initial_env s) = ''smarttimer'' \<and>
        name (tracker_reset initial_env s) \<noteq> name s)"
  by (simp add: new_tracker_def tic_def toc_def pending_def close_last_def
      tracker_clear_def tracker_reset_def DEFAULT_NAME_def)

end
